theory Spec2Isabelle
  imports Main
begin

section \<open>JavaScript strings\<close>

text \<open>
  A JavaScript string is a sequence of UTF-16 code units, and \<open>length\<close>, \<open>substring\<close>,
  \<open>slice\<close>, \<open>includes\<close> and \<open>split\<close> all count code units. A string is modelled as the list
  of its code units, each a natural number; \<open>js\<close> turns a literal into such a list.

  \<open>toLowerCase\<close> and \<open>toUpperCase\<close> are modelled on the ASCII letters; every other code unit
  is left as it is. That is what JavaScript does on ASCII text; on other text JavaScript
  also maps letters outside ASCII (U+00C9 to U+00E9, U+212A to \<open>k\<close>). A theorem about a
  function whose result depends on the case conversion of arbitrary text therefore has the
  hypothesis \<open>ascii\<close> for that text.
\<close>

type_synonym jsstring = "nat list"

definition js :: "string \<Rightarrow> jsstring" where
  "js s = map of_char s"

definition ascii :: "jsstring \<Rightarrow> bool" where
  "ascii s = list_all (\<lambda>c. c < 128) s"

text \<open>The white space of \<open>String.prototype.trim\<close> and of the regular expression class \<open>\s\<close>:
  TAB, LF, VT, FF, CR, SPACE, NBSP, U+1680, U+2000 to U+200A, U+2028, U+2029, U+202F, U+205F,
  U+3000 and U+FEFF.\<close>

definition isWhitespace :: "nat \<Rightarrow> bool" where
  "isWhitespace c =
     (c = 9 \<or> c = 10 \<or> c = 11 \<or> c = 12 \<or> c = 13 \<or> c = 32 \<or> c = 160 \<or> c = 5760 \<or>
      (8192 \<le> c \<and> c \<le> 8202) \<or> c = 8232 \<or> c = 8233 \<or> c = 8239 \<or> c = 8287 \<or>
      c = 12288 \<or> c = 65279)"

definition trimStart :: "jsstring \<Rightarrow> jsstring" where
  "trimStart s = dropWhile isWhitespace s"

definition trimEnd :: "jsstring \<Rightarrow> jsstring" where
  "trimEnd s = rev (dropWhile isWhitespace (rev s))"

definition trim :: "jsstring \<Rightarrow> jsstring" where
  "trim s = trimEnd (trimStart s)"

definition lowerUnit :: "nat \<Rightarrow> nat" where
  "lowerUnit c = (if 65 \<le> c \<and> c \<le> 90 then c + 32 else c)"

definition upperUnit :: "nat \<Rightarrow> nat" where
  "upperUnit c = (if 97 \<le> c \<and> c \<le> 122 then c - 32 else c)"

definition toLowerCase :: "jsstring \<Rightarrow> jsstring" where
  "toLowerCase s = map lowerUnit s"

definition toUpperCase :: "jsstring \<Rightarrow> jsstring" where
  "toUpperCase s = map upperUnit s"

text \<open>\<open>s.substring(0, n)\<close> and \<open>s.slice(0, n)\<close> for a literal \<open>n \<ge> 0\<close>: the first \<open>n\<close> code
  units, or all of \<open>s\<close> when it is shorter.\<close>

definition substring0 :: "jsstring \<Rightarrow> nat \<Rightarrow> jsstring" where
  "substring0 s n = take n s"

definition startsWith :: "jsstring \<Rightarrow> jsstring \<Rightarrow> bool" where
  "startsWith s p = (take (length p) s = p)"

fun includesJs :: "jsstring \<Rightarrow> jsstring \<Rightarrow> bool" where
  "includesJs [] p = (p = [])"
| "includesJs (c # cs) p = (startsWith (c # cs) p \<or> includesJs cs p)"

section \<open>Platform classifier (\<open>detectVideoPlatform\<close>)\<close>

datatype platformType = tiktok | instagram | youtube

record VideoPlatform =
  type :: platformType
  supported :: bool

definition detectVideoPlatform :: "jsstring \<Rightarrow> VideoPlatform" where
  "detectVideoPlatform url =
     (let urlLower = toLowerCase url in
      if includesJs urlLower (js ''tiktok.com'') \<or> includesJs urlLower (js ''vm.tiktok.com'')
      then \<lparr>type = tiktok, supported = True\<rparr>
      else if includesJs urlLower (js ''instagram.com'') \<and>
              (includesJs urlLower (js ''/reel/'') \<or> includesJs urlLower (js ''/reels/''))
      then \<lparr>type = instagram, supported = True\<rparr>
      else if includesJs urlLower (js ''youtube.com'') \<or> includesJs urlLower (js ''youtu.be'')
      then (if includesJs urlLower (js ''/shorts/'') \<or> includesJs urlLower (js ''youtube.com/shorts/'')
            then \<lparr>type = youtube, supported = True\<rparr>
            else \<lparr>type = youtube, supported = True\<rparr>)
      else \<lparr>type = youtube, supported = False\<rparr>)"

section \<open>Provenance label of the transcript (\<open>transformVideoContent\<close>)\<close>

definition isFromCaptions :: "jsstring \<Rightarrow> bool" where
  "isFromCaptions transcript =
     (\<not> includesJs transcript (js ''WEBVTT'') \<and> \<not> includesJs transcript (js ''-->'') \<and>
      length transcript > 0)"

definition transcriptSource :: "jsstring \<Rightarrow> jsstring" where
  "transcriptSource transcript =
     (if isFromCaptions transcript then js ''captions/subtitles (high quality)''
      else js ''audio transcription'')"

text \<open>The user prompt: the template of the source, with the label in two places.\<close>

definition userPrompt :: "jsstring \<Rightarrow> jsstring \<Rightarrow> jsstring" where
  \<open>userPrompt transcript url =
     js ''Analyze this video transcript and extract ALL structured content with maximum ''
     @ js ''detail.\<newline>\<newline>IMPORTANT: This transcript is from ''
     @ transcriptSource transcript
     @ js '', which means it contains the actual text content from the video. Prioritize ''
     @ js ''this content over any assumptions.\<newline>\<newline>Transcript:\<newline>"''
     @ transcript
     @ js ''"\<newline>\<newline>URL: ''
     @ url
     @ js ''\<newline>\<newline>INSTRUCTIONS:\<newline>''
     @ js ''1. Carefully read the ENTIRE transcript - this is the primary source of ''
     @ js ''information\<newline>2. Since this is ''
     @ transcriptSource transcript
     @ js '', trust the text content as it represents what was actually said/shown\<newline>''
     @ js ''3. Generate a concise, properly formatted title (max 60 chars, Title Case, no ''
     @ js ''emojis) based on the video content\<newline>''
     @ js ''4. Identify the content type (recipe, workout, tutorial, or general)\<newline>''
     @ js ''5. For RECIPES: Extract EVERY ingredient with full quantities and units, ALL ''
     @ js ''cooking steps with details (temperatures, times, techniques), and any metadata ''
     @ js ''(servings, prep time, cook time)\<newline>''
     @ js ''6. Be thorough - include all details mentioned, even if they seem ''
     @ js ''minor\<newline>''
     @ js ''7. Preserve the exact wording for measurements and instructions when ''
     @ js ''possible\<newline>''
     @ js ''8. The transcript text is authoritative - use it as the primary source\<newline>''
     @ js ''9. Return complete, detailed JSON with all available information including the ''
     @ js ''title\<newline>\<newline>''
     @ js ''Return JSON with the appropriate structure based on the content type.''\<close>

section \<open>Parsed JSON values\<close>

text \<open>
  What \<open>JSON.parse\<close> returns: null, a boolean, a number, a string, an array or an object. An
  object is the list of its properties in order, each key occurring once. A property that
  is absent reads as \<open>undefined\<close>, modelled by \<open>None\<close>.

  A number is modelled by an integer. That is exact for the integers of magnitude up to
  \<open>2^53\<close>, which a double holds exactly (\<open>safeInteger\<close>); fractions and larger numbers are
  outside the model, and the statements about numbers carry that bound (\<open>safeJson\<close> for
  a whole value).
\<close>

datatype json =
    JNull
  | JBool bool
  | JNum int
  | JStr jsstring
  | JArr "json list"
  | JObj "(jsstring \<times> json) list"

definition safeInteger :: "int \<Rightarrow> bool" where
  "safeInteger n = (- 9007199254740992 \<le> n \<and> n \<le> 9007199254740992)"

fun safeJson :: "json \<Rightarrow> bool" and safeJsons :: "json list \<Rightarrow> bool"
  and safeProps :: "(jsstring \<times> json) list \<Rightarrow> bool" where
  "safeJson JNull = True"
| "safeJson (JBool b) = True"
| "safeJson (JNum n) = safeInteger n"
| "safeJson (JStr s) = True"
| "safeJson (JArr xs) = safeJsons xs"
| "safeJson (JObj ps) = safeProps ps"
| "safeJsons [] = True"
| "safeJsons (x # xs) = (safeJson x \<and> safeJsons xs)"
| "safeProps [] = True"
| "safeProps (p # ps) = (safeJson (snd p) \<and> safeProps ps)"

section \<open>In-memory store (\<open>MemStorage\<close>)\<close>

record User =
  userIdent :: jsstring
  email :: jsstring
  firstName :: "jsstring option"
  lastName :: "jsstring option"
  profileImageUrl :: "jsstring option"
  userCreatedAt :: int
  updatedAt :: int

datatype itemKind = Link | Note | Video

record VideoData =
  platform :: platformType
  videoTranscript :: "jsstring option"
  videoStructuredContent :: "json option"

text \<open>The fields \<open>id\<close>, \<open>type\<close>, \<open>title\<close>, \<open>summary\<close>, \<open>category\<close>, \<open>url\<close> and \<open>content\<close> of an
  item carry the prefix \<open>item\<close>.\<close>

record Item =
  itemId :: jsstring
  userId :: jsstring
  itemType :: itemKind
  itemTitle :: jsstring
  itemSummary :: jsstring
  itemCategory :: jsstring
  tags :: "jsstring list"
  createdAt :: int
  userNotes :: "jsstring option"
  itemUrl :: "jsstring option"
  imageUrl :: "jsstring option"
  itemContent :: "jsstring option"
  videoData :: "VideoData option"

text \<open>\<open>Partial<Item>\<close>: every property may be absent (\<open>None\<close>).\<close>

record ItemUpdates =
  newId :: "jsstring option"
  newUserId :: "jsstring option"
  newItemType :: "itemKind option"
  newTitle :: "jsstring option"
  newSummary :: "jsstring option"
  newCategory :: "jsstring option"
  newTags :: "jsstring list option"
  newCreatedAt :: "int option"
  newUserNotes :: "jsstring option"
  newUrl :: "jsstring option"
  newImageUrl :: "jsstring option"
  newContent :: "jsstring option"
  newVideoData :: "VideoData option"

record MemStorage =
  users :: "jsstring \<rightharpoonup> User"
  items :: "jsstring \<rightharpoonup> Item"
  userByEmail :: "jsstring \<rightharpoonup> jsstring"

text \<open>\<open>{...item, ...updates}\<close>: a property present in \<open>updates\<close> replaces the item's.\<close>

definition spread :: "Item \<Rightarrow> ItemUpdates \<Rightarrow> Item" where
  "spread item updates =
     \<lparr>itemId = (case newId updates of None \<Rightarrow> itemId item | Some v \<Rightarrow> v),
      userId = (case newUserId updates of None \<Rightarrow> userId item | Some v \<Rightarrow> v),
      itemType = (case newItemType updates of None \<Rightarrow> itemType item | Some v \<Rightarrow> v),
      itemTitle = (case newTitle updates of None \<Rightarrow> itemTitle item | Some v \<Rightarrow> v),
      itemSummary = (case newSummary updates of None \<Rightarrow> itemSummary item | Some v \<Rightarrow> v),
      itemCategory = (case newCategory updates of None \<Rightarrow> itemCategory item | Some v \<Rightarrow> v),
      tags = (case newTags updates of None \<Rightarrow> tags item | Some v \<Rightarrow> v),
      createdAt = (case newCreatedAt updates of None \<Rightarrow> createdAt item | Some v \<Rightarrow> v),
      userNotes = (case newUserNotes updates of None \<Rightarrow> userNotes item | Some v \<Rightarrow> Some v),
      itemUrl = (case newUrl updates of None \<Rightarrow> itemUrl item | Some v \<Rightarrow> Some v),
      imageUrl = (case newImageUrl updates of None \<Rightarrow> imageUrl item | Some v \<Rightarrow> Some v),
      itemContent = (case newContent updates of None \<Rightarrow> itemContent item | Some v \<Rightarrow> Some v),
      videoData = (case newVideoData updates of None \<Rightarrow> videoData item | Some v \<Rightarrow> Some v)\<rparr>"

text \<open>Each operation returns its result together with the store after it.\<close>

definition getItemById :: "MemStorage \<Rightarrow> jsstring \<Rightarrow> jsstring \<Rightarrow> Item option \<times> MemStorage" where
  "getItemById this ident uid =
     (case items this ident of
        None \<Rightarrow> (None, this)
      | Some item \<Rightarrow> if userId item \<noteq> uid then (None, this) else (Some item, this))"

definition updateItem ::
  "MemStorage \<Rightarrow> jsstring \<Rightarrow> jsstring \<Rightarrow> ItemUpdates \<Rightarrow> Item option \<times> MemStorage" where
  "updateItem this ident uid updates =
     (case items this ident of
        None \<Rightarrow> (None, this)
      | Some item \<Rightarrow>
          if userId item \<noteq> uid then (None, this)
          else
            (let updated = (spread item updates)
                   \<lparr>itemId := itemId item, userId := userId item, createdAt := createdAt item\<rparr>
             in (Some updated, this\<lparr>items := (items this)(ident \<mapsto> updated)\<rparr>)))"

definition deleteItem :: "MemStorage \<Rightarrow> jsstring \<Rightarrow> jsstring \<Rightarrow> bool \<times> MemStorage" where
  "deleteItem this ident uid =
     (case items this ident of
        None \<Rightarrow> (False, this)
      | Some item \<Rightarrow>
          if userId item \<noteq> uid then (False, this)
          else (True, this\<lparr>items := (items this)(ident := None)\<rparr>))"

text \<open>A store holding one item of user \<open>alice\<close>, and an update that tries to change the
  item's id, owner and creation time together with its title.\<close>

definition exampleItem :: Item where
  "exampleItem =
     \<lparr>itemId = js ''item-1'', userId = js ''alice'', itemType = Link,
      itemTitle = js ''T'', itemSummary = js ''S'', itemCategory = js ''General'', tags = [],
      createdAt = 1000, userNotes = None, itemUrl = None, imageUrl = None,
      itemContent = None, videoData = None\<rparr>"

definition exampleStore :: MemStorage where
  "exampleStore =
     \<lparr>users = Map.empty, items = [js ''item-1'' \<mapsto> exampleItem], userByEmail = Map.empty\<rparr>"

definition exampleUpdates :: ItemUpdates where
  "exampleUpdates =
     \<lparr>newId = Some (js ''item-9''), newUserId = Some (js ''mallory''), newItemType = None,
      newTitle = Some (js ''New''), newSummary = None, newCategory = None, newTags = None,
      newCreatedAt = Some 5, newUserNotes = None, newUrl = None, newImageUrl = None,
      newContent = None, newVideoData = None\<rparr>"

section \<open>Category normalisation (\<open>validateCategory\<close>)\<close>

text \<open>\<open>\w\<close> is \<open>[A-Za-z0-9_]\<close>. \<open>s.split(/\s+/)\<close> cuts at every maximal run of white space, so a
  string that starts or ends with white space yields an empty first or last piece, and the
  empty string yields one empty piece.\<close>

definition isWordChar :: "nat \<Rightarrow> bool" where
  "isWordChar c = ((65 \<le> c \<and> c \<le> 90) \<or> (97 \<le> c \<and> c \<le> 122) \<or> (48 \<le> c \<and> c \<le> 57) \<or> c = 95)"

definition consHead :: "nat \<Rightarrow> jsstring list \<Rightarrow> jsstring list" where
  "consHead c ws = (case ws of [] \<Rightarrow> [[c]] | w # rest \<Rightarrow> (c # w) # rest)"

fun splitWhitespace :: "jsstring \<Rightarrow> jsstring list" where
  "splitWhitespace [] = [[]]"
| "splitWhitespace [c] = (if isWhitespace c then [[], []] else [[c]])"
| "splitWhitespace (c # d # cs) =
     (if isWhitespace c
      then (if isWhitespace d then splitWhitespace (d # cs) else [] # splitWhitespace (d # cs))
      else consHead c (splitWhitespace (d # cs)))"

fun joinWith :: "jsstring \<Rightarrow> jsstring list \<Rightarrow> jsstring" where
  "joinWith sep [] = []"
| "joinWith sep [w] = w"
| "joinWith sep (w # v # ws) = w @ sep @ joinWith sep (v # ws)"

definition capitalize :: "jsstring \<Rightarrow> jsstring" where
  "capitalize word = toUpperCase (take 1 word) @ toLowerCase (drop 1 word)"

definition FIXED_CATEGORIES :: "jsstring list" where
  "FIXED_CATEGORIES =
     [js ''Technology'', js ''Business'', js ''Finance'', js ''Marketing'', js ''Productivity'',
      js ''Self-Improvement'', js ''Health'', js ''Fitness'', js ''Cooking'', js ''Design'',
      js ''Creative'', js ''AI'', js ''Programming'', js ''Science'', js ''Education'',
      js ''Lifestyle'']"

definition cleanCategory :: "jsstring \<Rightarrow> jsstring" where
  "cleanCategory category =
     (let cleaned = trim category;
          cleaned = filter (\<lambda>c. isWordChar c \<or> isWhitespace c \<or> c = 45) cleaned;
          cleaned = joinWith (js '' '') (map capitalize (splitWhitespace cleaned));
          words = take 2 (splitWhitespace cleaned)
      in joinWith (js '' '') words)"

definition validateCategory :: "jsstring \<Rightarrow> jsstring" where
  "validateCategory category =
     (if category = [] then js ''General''
      else
        (let cleaned = cleanCategory category in
         case find (\<lambda>fixed. toLowerCase fixed = toLowerCase cleaned) FIXED_CATEGORIES of
           Some fixedMatch \<Rightarrow> fixedMatch
         | None \<Rightarrow> if cleaned = [] \<or> length cleaned < 2 then js ''General'' else cleaned))"

section \<open>Title normalisation (\<open>transformVideoContent\<close>, "Clean and format title")\<close>

text \<open>\<open>s.split(' ')\<close> cuts at every single space, so two spaces in a row give an empty piece.
  \<open>s.replace(/\s+/g, ' ')\<close> puts one space for every maximal run of white space. The two
  statements of the source are \<open>cleanTitle\<close> (trim, drop \<open>#\<close> and \<open>@\<close>, collapse white space,
  first 60 code units) and \<open>titleCase\<close>; \<open>normalizeTitle\<close> is one after the other.\<close>

fun splitOn :: "nat \<Rightarrow> jsstring \<Rightarrow> jsstring list" where
  "splitOn d [] = [[]]"
| "splitOn d (c # cs) = (if c = d then [] # splitOn d cs else consHead c (splitOn d cs))"

fun collapseWhitespace :: "jsstring \<Rightarrow> jsstring" where
  "collapseWhitespace [] = []"
| "collapseWhitespace [c] = (if isWhitespace c then [32] else [c])"
| "collapseWhitespace (c # d # cs) =
     (if isWhitespace c
      then (if isWhitespace d then collapseWhitespace (d # cs)
            else 32 # collapseWhitespace (d # cs))
      else c # collapseWhitespace (d # cs))"

definition cleanTitle :: "jsstring \<Rightarrow> jsstring" where
  "cleanTitle title =
     substring0 (collapseWhitespace (filter (\<lambda>c. c \<noteq> 35 \<and> c \<noteq> 64) (trim title))) 60"

definition titleWord :: "jsstring \<Rightarrow> jsstring" where
  "titleWord word =
     (if length word = 0 then word
      else toUpperCase (take 1 word) @ toLowerCase (drop 1 word))"

definition titleCase :: "jsstring \<Rightarrow> jsstring" where
  "titleCase title = joinWith (js '' '') (map titleWord (splitOn 32 title))"

definition normalizeTitle :: "jsstring \<Rightarrow> jsstring" where
  "normalizeTitle title = titleCase (cleanTitle title)"

text \<open>Two notions used in the proofs about \<open>titleCase\<close>: \<open>caseFrom b s\<close> cases \<open>s\<close> unit by unit,
  \<open>b\<close> telling whether the next unit starts a word; \<open>spaced s\<close> says that the only white space
  in \<open>s\<close> are single spaces, each followed by a unit that is not white space.\<close>

fun caseFrom :: "bool \<Rightarrow> jsstring \<Rightarrow> jsstring" where
  "caseFrom b [] = []"
| "caseFrom b (c # cs) =
     (if c = 32 then 32 # caseFrom True cs
      else (if b then upperUnit c else lowerUnit c) # caseFrom False cs)"

fun spaced :: "jsstring \<Rightarrow> bool" where
  "spaced [] = True"
| "spaced [c] = (isWhitespace c \<longrightarrow> c = 32)"
| "spaced (c # d # cs) = ((isWhitespace c \<longrightarrow> c = 32 \<and> \<not> isWhitespace d) \<and> spaced (d # cs))"

section \<open>Errors and the model-fallback loop\<close>

text \<open>
  A thrown error, as far as the handlers look at it: its \<open>message\<close>, \<open>status\<close> and \<open>code\<close>,
  each of which may be absent. \<open>Error(m)\<close> is what \<open>new Error(m)\<close> gives.
\<close>

record jsError =
  message :: "jsstring option"
  status :: "int option"
  code :: "jsstring option"

definition Error :: "jsstring \<Rightarrow> jsError" where
  "Error m = \<lparr>message = Some m, status = None, code = None\<rparr>"

text \<open>The test of both \<open>catch\<close> blocks:
  \<open>error.message?.includes('model') || error.status === 404 || error.code === 'model_not_found'\<close>.\<close>

definition isModelError :: "jsError \<Rightarrow> bool" where
  "isModelError error =
     ((case message error of None \<Rightarrow> False | Some m \<Rightarrow> includesJs m (js ''model'')) \<or>
      status error = Some 404 \<or> code error = Some (js ''model_not_found''))"

definition MODELS :: "jsstring list" where
  "MODELS = [js ''gpt-4o-mini'', js ''gpt-4-turbo'', js ''gpt-3.5-turbo'']"

text \<open>
  One pass of \<open>for (const model of models) { try { ... } catch (error) { ... } }\<close>. The \<open>try\<close>
  block makes the chat-completion call for \<open>model\<close> and then turns the response into the
  result; whatever either of them throws reaches the one handler. The client and the
  post-processing are parameters: \<open>client model\<close> is what
  \<open>client.chat.completions.create\<close> does for that model (an error thrown or a response),
  \<open>structure response\<close> what the rest of the \<open>try\<close> block does with the response.
\<close>

definition attemptWith ::
  "(jsstring \<Rightarrow> jsError + 'r) \<Rightarrow> ('r \<Rightarrow> jsError + 'a) \<Rightarrow> jsstring \<Rightarrow> jsError + 'a" where
  "attemptWith client structure model =
     (case client model of Inl error \<Rightarrow> Inl error | Inr response \<Rightarrow> structure response)"

text \<open>
  The loop, with its state written out: \<open>lastError\<close> and the list of the models for which
  the chat-completion call has been made. The result is \<open>Some\<close> of the value returned from
  inside the loop, or \<open>None\<close> when the loop is left by \<open>break\<close> or runs out of models.
\<close>

fun tryModels ::
  "(jsstring \<Rightarrow> jsError + 'a) \<Rightarrow> jsstring list \<Rightarrow> jsError option \<Rightarrow> jsstring list \<Rightarrow>
   'a option \<times> jsError option \<times> jsstring list" where
  "tryModels attempt [] lastError called = (None, lastError, called)"
| "tryModels attempt (model # models) lastError called =
     (case attempt model of
        Inr result \<Rightarrow> (Some result, lastError, called @ [model])
      | Inl error \<Rightarrow>
          if isModelError error
          then tryModels attempt models (Some error) (called @ [model])
          else (None, Some error, called @ [model]))"

section \<open>Structured-content extractor (\<open>transformVideoContent\<close>)\<close>

text \<open>The \<open>type\<close> and \<open>category\<close> of a successful result are whatever truthy JSON value the
  model's response held, so they are JSON values here; title and summary are strings.\<close>

record VideoStructuredContent =
  contentType :: json
  recipe :: "json option"
  workout :: "json option"
  tutorial :: "json option"

record VideoAIAnalysis =
  analysisTitle :: jsstring
  analysisCategory :: json
  analysisSummary :: jsstring
  structuredContent :: VideoStructuredContent

text \<open>\<open>a || b\<close> on strings: the empty string is falsy.\<close>

definition orElse :: "jsstring \<Rightarrow> jsstring \<Rightarrow> jsstring" where
  "orElse a b = (if a = [] then b else a)"

text \<open>\<open>s.split('.')[0]\<close>: the first piece, which always exists.\<close>

definition firstPiece :: "nat \<Rightarrow> jsstring \<Rightarrow> jsstring" where
  "firstPiece d s = (case splitOn d s of [] \<Rightarrow> [] | piece # _ \<Rightarrow> piece)"

definition fallbackVideoAnalysis :: "jsstring \<Rightarrow> VideoAIAnalysis" where
  "fallbackVideoAnalysis transcript =
     (let fallbackTitle = orElse (trim (firstPiece 46 (substring0 transcript 50))) (js ''Video'')
      in \<lparr>analysisTitle = substring0 fallbackTitle 60,
          analysisCategory = JStr (js ''General''),
          analysisSummary = substring0 transcript 200,
          structuredContent =
            \<lparr>contentType = JStr (js ''general''), recipe = None, workout = None,
             tutorial = None\<rparr>\<rparr>)"

text \<open>The function throws when \<open>OPENAI_API_KEY\<close> is unset or empty, before any call. Its result
  comes with the list of the models that were called.\<close>

definition transformVideoContent ::
  "jsstring option \<Rightarrow> (jsstring \<Rightarrow> jsError + 'r) \<Rightarrow> ('r \<Rightarrow> jsError + VideoAIAnalysis) \<Rightarrow>
   jsstring \<Rightarrow> jsstring \<Rightarrow> (jsError + VideoAIAnalysis) \<times> jsstring list" where
  "transformVideoContent apiKey client structure transcript url =
     (if apiKey = None \<or> apiKey = Some [] then (Inl (Error (js ''OPENAI_API_KEY not set'')), [])
      else
        (case tryModels (attemptWith client structure) MODELS None [] of
           (Some result, lastError, called) \<Rightarrow> (Inr result, called)
         | (None, lastError, called) \<Rightarrow> (Inr (fallbackVideoAnalysis transcript), called)))"

section \<open>Generic content analyzer (\<open>analyzeContent\<close>)\<close>

record AIAnalysis =
  aiCategory :: jsstring
  aiSummary :: jsstring

text \<open>\<open>content || title || ''\<close> where \<open>content\<close> may be null.\<close>

definition fallbackAnalysis :: "jsstring \<Rightarrow> jsstring option \<Rightarrow> AIAnalysis" where
  "fallbackAnalysis title content =
     (let textSource = (case content of None \<Rightarrow> title | Some c \<Rightarrow> orElse c title);
          summary = orElse (trim (substring0 textSource 160)) (js ''No summary available.'')
      in \<lparr>aiCategory = js ''General'',
          aiSummary = (if length summary > 200 then substring0 summary 197 @ js ''...''
                       else summary)\<rparr>)"

text \<open>\<open>initializeOpenAI()\<close> yields the client or null (\<open>None\<close>); the key is then checked again.\<close>

definition analyzeContent ::
  "(jsstring \<Rightarrow> jsError + 'r) option \<Rightarrow> jsstring option \<Rightarrow> ('r \<Rightarrow> jsError + AIAnalysis) \<Rightarrow>
   jsstring \<Rightarrow> jsstring option \<Rightarrow> AIAnalysis \<times> jsstring list" where
  "analyzeContent initialized apiKey structure title content =
     (case initialized of
        None \<Rightarrow> (fallbackAnalysis title content, [])
      | Some client \<Rightarrow>
          if apiKey = None \<or> apiKey = Some [] then (fallbackAnalysis title content, [])
          else
            (case tryModels (attemptWith client structure) MODELS None [] of
               (Some result, lastError, called) \<Rightarrow> (result, called)
             | (None, lastError, called) \<Rightarrow> (fallbackAnalysis title content, called)))"

section \<open>Transcript acquirer (\<open>processVideo\<close>)\<close>





text \<open>Following the spec's words for the terminal fallback title: the text before the first
  period in the first 50 characters of the transcript, or \<open>Video\<close> if that text is empty.\<close>

definition specFallbackTitle :: "jsstring \<Rightarrow> jsstring" where
  "specFallbackTitle transcript =
     (let text = takeWhile (\<lambda>c. c \<noteq> 46) (take 50 transcript)
      in if text = [] then js ''Video'' else text)"

text \<open>Example collaborators: a client for which no model exists, a client whose first model
  does not exist and whose other models are rate-limited, a client that is rate-limited for
  every model, and post-processing that is never reached by any of them.\<close>

definition notFoundClient :: "jsstring \<Rightarrow> jsError + unit" where
  "notFoundClient model =
     Inl \<lparr>message = Some (js ''The model does not exist or you do not have access to it.''),
          status = Some 404, code = Some (js ''model_not_found'')\<rparr>"

definition rateLimitError :: jsError where
  "rateLimitError =
     \<lparr>message = Some (js ''Rate limit reached for requests''), status = Some 429,
      code = Some (js ''rate_limit_exceeded'')\<rparr>"

definition rateLimitedClient :: "jsstring \<Rightarrow> jsError + unit" where
  "rateLimitedClient model = Inl rateLimitError"

definition secondRateLimitedClient :: "jsstring \<Rightarrow> jsError + unit" where
  "secondRateLimitedClient model =
     (if model = js ''gpt-4o-mini'' then notFoundClient model else Inl rateLimitError)"

definition unreached :: "unit \<Rightarrow> jsError + 'a" where
  "unreached response = Inl (Error (js ''unreached''))"


section \<open>Recipe repair (\<open>transformVideoContent\<close>, "Validate and structure response")\<close>

text \<open>Properties of an object: reading, assigning (an existing key keeps its place, a new
  one goes to the end) and \<open>delete\<close>.\<close>

type_synonym props = "(jsstring \<times> json) list"

definition getProp :: "props \<Rightarrow> jsstring \<Rightarrow> json option" where
  "getProp ps k = map_of ps k"

fun setProp :: "props \<Rightarrow> jsstring \<Rightarrow> json \<Rightarrow> props" where
  "setProp [] k v = [(k, v)]"
| "setProp ((k', v') # ps) k v = (if k' = k then (k, v) # ps else (k', v') # setProp ps k v)"

definition deleteProp :: "props \<Rightarrow> jsstring \<Rightarrow> props" where
  "deleteProp ps k = filter (\<lambda>p. fst p \<noteq> k) ps"

text \<open>Truthiness of a value that was read from a property (\<open>None\<close> is \<open>undefined\<close>).\<close>

fun truthy :: "json option \<Rightarrow> bool" where
  "truthy None = False"
| "truthy (Some JNull) = False"
| "truthy (Some (JBool b)) = b"
| "truthy (Some (JNum n)) = (n \<noteq> 0)"
| "truthy (Some (JStr s)) = (s \<noteq> [])"
| "truthy (Some (JArr xs)) = True"
| "truthy (Some (JObj ps)) = True"

fun isArray :: "json option \<Rightarrow> bool" where
  "isArray (Some (JArr xs)) = True"
| "isArray v = False"

fun isString :: "json option \<Rightarrow> bool" where
  "isString (Some (JStr s)) = True"
| "isString v = False"

definition isDigit :: "nat \<Rightarrow> bool" where
  "isDigit c = (48 \<le> c \<and> c \<le> 57)"

text \<open>\<open>s.match(/\d+/)\<close>: the first maximal run of digits, or null.\<close>

definition matchDigits :: "jsstring \<Rightarrow> jsstring option" where
  "matchDigits s =
     (let rest = dropWhile (\<lambda>c. \<not> isDigit c) s
      in if rest = [] then None else Some (takeWhile isDigit rest))"

text \<open>\<open>parseInt(digits, 10)\<close> on a run of digits: its decimal value, which is what JavaScript
  returns up to \<open>2^53\<close>; beyond that JavaScript returns a rounded double, and the statements
  about \<open>parseInt\<close> are made within the bound.\<close>

definition parseInt :: "jsstring \<Rightarrow> int" where
  "parseInt digits = foldl (\<lambda>a c. 10 * a + (int c - 48)) 0 digits"

text \<open>\<open>String(v)\<close>: the decimal digits of a number, which is what JavaScript gives for the
  integers up to \<open>2^53\<close> in magnitude (it writes an exponent from \<open>10^21\<close> on); the elements
  joined by commas for an array, with null as the empty string. The statements about
  \<open>String\<close> are made for values within the bound (\<open>safeJson\<close>).\<close>

fun decimal :: "nat \<Rightarrow> jsstring" where
  "decimal n = (if n < 10 then [48 + n] else decimal (n div 10) @ [48 + n mod 10])"

definition numberToString :: "int \<Rightarrow> jsstring" where
  "numberToString n = (if n < 0 then 45 # decimal (nat (- n)) else decimal (nat n))"

fun toStringJs :: "json \<Rightarrow> jsstring" and arrayJoin :: "json list \<Rightarrow> jsstring" where
  "toStringJs JNull = js ''null''"
| "toStringJs (JBool b) = (if b then js ''true'' else js ''false'')"
| "toStringJs (JNum n) = numberToString n"
| "toStringJs (JStr s) = s"
| "toStringJs (JArr xs) = arrayJoin xs"
| "toStringJs (JObj ps) = js ''[object Object]''"
| "arrayJoin [] = []"
| "arrayJoin [x] = (if x = JNull then [] else toStringJs x)"
| "arrayJoin (x # y # xs) = (if x = JNull then [] else toStringJs x) @ js '','' @ arrayJoin (y # xs)"

text \<open>\<open>!recipeData.name || recipeData.name.trim() === ''\<close>. A truthy name that is not a
  string has no \<open>trim\<close>, and calling it throws a TypeError (\<open>None\<close>).\<close>

fun nameIsBlank :: "json option \<Rightarrow> bool option" where
  "nameIsBlank (Some (JStr s)) = Some (s = [] \<or> trim s = [])"
| "nameIsBlank v = (if truthy v then None else Some True)"

text \<open>\<open>if (x && typeof x !== 'string') x = String(x)\<close> for the property \<open>k\<close>.\<close>

definition coerceTime :: "props \<Rightarrow> jsstring \<Rightarrow> props" where
  "coerceTime r k =
     (if truthy (getProp r k) \<and> \<not> isString (getProp r k)
      then (case getProp r k of None \<Rightarrow> r | Some v \<Rightarrow> setProp r k (JStr (toStringJs v)))
      else r)"

definition coerceServings :: "props \<Rightarrow> props" where
  "coerceServings r =
     (case getProp r (js ''servings'') of
        Some (JStr servings) \<Rightarrow>
          if servings \<noteq> []
          then (case matchDigits servings of
                  Some servingsMatch \<Rightarrow> setProp r (js ''servings'') (JNum (parseInt servingsMatch))
                | None \<Rightarrow> deleteProp r (js ''servings''))
          else r
      | _ \<Rightarrow> r)"

text \<open>The repair of a recipe block that is a JSON object, statement by statement. The result
  is \<open>None\<close> when the TypeError above is thrown.\<close>

definition repairRecipe :: "props \<Rightarrow> props option" where
  "repairRecipe recipeData =
     (let r = (if \<not> isArray (getProp recipeData (js ''ingredients''))
               then setProp recipeData (js ''ingredients'') (JArr []) else recipeData);
          r = (if \<not> isArray (getProp r (js ''instructions''))
               then setProp r (js ''instructions'') (JArr []) else r)
      in case nameIsBlank (getProp r (js ''name'')) of
           None \<Rightarrow> None
         | Some blank \<Rightarrow>
             (let r = (if blank then setProp r (js ''name'') (JStr (js ''Untitled Recipe'')) else r);
                  r = coerceServings r;
                  r = coerceTime r (js ''prepTime'');
                  r = coerceTime r (js ''cookTime'')
              in Some r))"

text \<open>Two recipe blocks: one with a string for the ingredients, no instructions, a blank
  name, servings in words and times that are not strings; and one that is well-formed except
  for an empty servings string and a preparation time of zero.\<close>

definition exampleRecipe :: props where
  "exampleRecipe =
     [(js ''ingredients'', JStr (js ''2 cups flour, 1 cup sugar'')),
      (js ''name'', JStr (js ''  '')),
      (js ''servings'', JStr (js ''serves 4 people'')),
      (js ''prepTime'', JNum 15),
      (js ''cookTime'', JArr [JNum 30, JStr (js ''minutes'')])]"

definition falsyRecipe :: props where
  "falsyRecipe =
     [(js ''name'', JStr (js ''Cake'')), (js ''ingredients'', JArr []),
      (js ''instructions'', JArr []), (js ''servings'', JStr []), (js ''prepTime'', JNum 0)]"


section \<open>Summary normalisation (\<open>validateSummary\<close>)\<close>

text \<open>
  \<open>s.replace(/[\u{lo}-\u{hi}]/gu, '')\<close>: with the \<open>u\<close> flag the string is read code point by
  code point, a high surrogate followed by a low surrogate being one code point, and every
  code point in the range is dropped.
\<close>

definition isHighSurrogate :: "nat \<Rightarrow> bool" where
  "isHighSurrogate c = (55296 \<le> c \<and> c \<le> 56319)"

definition isLowSurrogate :: "nat \<Rightarrow> bool" where
  "isLowSurrogate c = (56320 \<le> c \<and> c \<le> 57343)"

definition codePoint :: "nat \<Rightarrow> nat \<Rightarrow> nat" where
  "codePoint h l = 65536 + (h - 55296) * 1024 + (l - 56320)"

fun removeCodePoints :: "nat \<Rightarrow> nat \<Rightarrow> jsstring \<Rightarrow> jsstring" where
  "removeCodePoints lo hi [] = []"
| "removeCodePoints lo hi [c] = (if lo \<le> c \<and> c \<le> hi then [] else [c])"
| "removeCodePoints lo hi (c # d # cs) =
     (if isHighSurrogate c \<and> isLowSurrogate d
      then (if lo \<le> codePoint c d \<and> codePoint c d \<le> hi then removeCodePoints lo hi cs
            else c # d # removeCodePoints lo hi cs)
      else (if lo \<le> c \<and> c \<le> hi then removeCodePoints lo hi (d # cs)
            else c # removeCodePoints lo hi (d # cs)))"

text \<open>\<open>s.replace(/\*\*/g, '')\<close> and \<open>s.replace(/__/g, '')\<close>: every pair, from left to right.\<close>

fun removePairs :: "nat \<Rightarrow> jsstring \<Rightarrow> jsstring" where
  "removePairs c [] = []"
| "removePairs c [x] = [x]"
| "removePairs c (x # y # xs) =
     (if x = c \<and> y = c then removePairs c xs else x # removePairs c (y # xs))"

text \<open>
  \<open>s.replace(/\[([^\]]+)\]\([^\)]+\)/g, '$1')\<close>. A match starts at a \<open>[\<close>; its text runs to the
  first \<open>]\<close> and is not empty, \<open>](\<close> follows, the target runs to the first \<open>)\<close> and is not
  empty. \<open>matchLink\<close> reads what follows a \<open>[\<close> and gives the text and what is left after the
  match. \<open>removeLinks\<close> is given as many steps as the string has code units, and every step
  consumes at least one.
\<close>

definition matchLink :: "jsstring \<Rightarrow> (jsstring \<times> jsstring) option" where
  "matchLink rest =
     (let text = takeWhile (\<lambda>c. c \<noteq> 93) rest in
      if text = [] then None
      else
        (case dropWhile (\<lambda>c. c \<noteq> 93) rest of
           b # p # target \<Rightarrow>
             if b = 93 \<and> p = 40 \<and> takeWhile (\<lambda>c. c \<noteq> 41) target \<noteq> []
             then (case dropWhile (\<lambda>c. c \<noteq> 41) target of
                     [] \<Rightarrow> None
                   | q # remainder \<Rightarrow> Some (text, remainder))
             else None
         | _ \<Rightarrow> None))"

fun removeLinksWithin :: "nat \<Rightarrow> jsstring \<Rightarrow> jsstring" where
  "removeLinksWithin 0 s = s"
| "removeLinksWithin (Suc n) [] = []"
| "removeLinksWithin (Suc n) (c # cs) =
     (if c = 91
      then (case matchLink cs of
              Some (text, remainder) \<Rightarrow> text @ removeLinksWithin n remainder
            | None \<Rightarrow> c # removeLinksWithin n cs)
      else c # removeLinksWithin n cs)"

definition removeLinks :: "jsstring \<Rightarrow> jsstring" where
  "removeLinks s = removeLinksWithin (length s) s"

text \<open>The first three blocks of \<open>validateSummary\<close> after the guard: trim, remove emojis,
  remove markdown.\<close>

definition cleanSummary :: "jsstring \<Rightarrow> jsstring" where
  "cleanSummary summary =
     (let cleaned = trim summary;
          cleaned = removeCodePoints 127744 129535 cleaned;
          cleaned = removeCodePoints 128512 128591 cleaned;
          cleaned = removeCodePoints 128640 128767 cleaned;
          cleaned = removeCodePoints 9728 9983 cleaned;
          cleaned = removeCodePoints 9984 10175 cleaned;
          cleaned = removePairs 42 cleaned;
          cleaned = filter (\<lambda>c. c \<noteq> 42) cleaned;
          cleaned = removePairs 95 cleaned;
          cleaned = filter (\<lambda>c. c \<noteq> 95) cleaned;
          cleaned = filter (\<lambda>c. c \<noteq> 96) cleaned
      in removeLinks cleaned)"

text \<open>"Ensure it doesn't just repeat the title". \<open>repeatsTitle\<close> is the test of the \<open>if\<close>;
  \<open>content\<close> is a string or null.\<close>

definition repeatsTitle :: "jsstring \<Rightarrow> jsstring \<Rightarrow> bool" where
  "repeatsTitle cleaned title =
     (let titleLower = trim (toLowerCase title);
          summaryLower = trim (toLowerCase cleaned)
      in summaryLower = titleLower \<or> startsWith summaryLower (titleLower @ js '' ''))"

definition avoidTitle :: "jsstring \<Rightarrow> jsstring \<Rightarrow> jsstring option \<Rightarrow> jsstring" where
  "avoidTitle cleaned title content =
     (if repeatsTitle cleaned title
      then (case content of
              None \<Rightarrow> js ''Information about '' @ title
            | Some c \<Rightarrow> if c \<noteq> [] then trim (substring0 c 160)
                        else js ''Information about '' @ title)
      else cleaned)"

text \<open>\<open>s.lastIndexOf(c)\<close>: the last index of \<open>c\<close>, or -1.\<close>

fun lastIndexOf :: "jsstring \<Rightarrow> nat \<Rightarrow> int" where
  "lastIndexOf [] c = - 1"
| "lastIndexOf (x # xs) c =
     (let r = lastIndexOf xs c in if r \<ge> 0 then r + 1 else if x = c then 0 else - 1)"

definition lastSentenceEnd :: "jsstring \<Rightarrow> int" where
  "lastSentenceEnd truncated =
     max (lastIndexOf truncated 46) (max (lastIndexOf truncated 33) (lastIndexOf truncated 63))"

text \<open>"Limit to 200 characters".\<close>

definition limitSummary :: "jsstring \<Rightarrow> jsstring" where
  "limitSummary cleaned =
     (if length cleaned > 200
      then
        (let truncated = substring0 cleaned 200 in
         if lastSentenceEnd truncated > 50
         then substring0 cleaned (nat (lastSentenceEnd truncated + 1))
         else
           (let lastSpace = lastIndexOf truncated 32 in
            if lastSpace > 50 then substring0 cleaned (nat lastSpace) @ js ''...''
            else truncated @ js ''...''))
      else cleaned)"

definition validateSummary :: "jsstring \<Rightarrow> jsstring \<Rightarrow> jsstring option \<Rightarrow> jsstring" where
  "validateSummary summary title content =
     (if summary = []
      then
        (let textSource = (case content of None \<Rightarrow> title | Some c \<Rightarrow> orElse c title)
         in orElse (trim (substring0 textSource 160)) (js ''No summary available.''))
      else
        orElse (limitSummary (avoidTitle (cleanSummary summary) title content))
               (js ''No summary available.''))"

text \<open>Text made of lower-case letters and periods, which cleaning leaves as it is; and a
  summary of 261 such code units, whose only period is at index 60, with a title that is
  its first 61 code units in upper case.\<close>

definition plain :: "jsstring \<Rightarrow> bool" where
  "plain s = (\<forall>c \<in> set s. (97 \<le> c \<and> c \<le> 122) \<or> c = 46)"

definition sentenceSummary :: jsstring where
  "sentenceSummary = replicate 60 97 @ [46] @ replicate 200 98"

definition sentenceTitle :: jsstring where
  "sentenceTitle = replicate 60 65 @ [46]"

section \<open>Properties\<close>

lemma startsWith_length: "startsWith s p \<Longrightarrow> length p \<le> length s"
proof -
  assume "startsWith s p"
  then have "length p = length (take (length p) s)"
    by (simp add: startsWith_def)
  then show ?thesis by simp
qed

lemma startsWith_append: "startsWith s p \<Longrightarrow> startsWith (s @ t) p"
  using startsWith_length [of s p] by (simp add: startsWith_def)

lemma includes_Nil: "includesJs s []"
  by (cases s) (simp_all add: startsWith_def)

lemma includes_append_right: "includesJs s p \<Longrightarrow> includesJs (s @ t) p"
proof (induction s)
  case Nil
  then show ?case by (simp add: includes_Nil)
next
  case (Cons c s)
  then show ?case using startsWith_append [of "c # s" p t] by auto
qed

lemma includes_append_left: "includesJs t p \<Longrightarrow> includesJs (s @ t) p"
  by (induction s) simp_all

lemma includes_self_prefix: "includesJs (p @ t) p"
proof (rule includes_append_right)
  show "includesJs p p"
    by (cases p) (simp_all add: startsWith_def)
qed

text \<open>
  C8. An ASCII URL whose lower-cased text contains none of the markers of the three
  supported sources (TikTok; Instagram together with a reel path; YouTube) is classified
  \<open>supported = false\<close> with the default type \<open>youtube\<close>. The classifier is a total function
  with no error result: it returns a platform record for every string.
\<close>

theorem detectVideoPlatform_unsupported:
  assumes "ascii url"
      and "\<not> (includesJs (toLowerCase url) (js ''tiktok.com'') \<or>
              includesJs (toLowerCase url) (js ''vm.tiktok.com''))"
      and "\<not> (includesJs (toLowerCase url) (js ''instagram.com'') \<and>
              (includesJs (toLowerCase url) (js ''/reel/'') \<or>
               includesJs (toLowerCase url) (js ''/reels/'')))"
      and "\<not> (includesJs (toLowerCase url) (js ''youtube.com'') \<or>
              includesJs (toLowerCase url) (js ''youtu.be''))"
  shows "detectVideoPlatform url = \<lparr>type = youtube, supported = False\<rparr>"
  using assms(2-4) unfolding detectVideoPlatform_def Let_def by simp

theorem detectVideoPlatform_unsupported_witness:
  "ascii (js ''https://Example.com/watch?v=1'')
   \<and> detectVideoPlatform (js ''https://Example.com/watch?v=1'')
       = \<lparr>type = youtube, supported = False\<rparr>"
proof -
  have a: "ascii (js ''https://Example.com/watch?v=1'')"
    by (simp add: ascii_def js_def)
  have "detectVideoPlatform (js ''https://Example.com/watch?v=1'')
       = \<lparr>type = youtube, supported = False\<rparr>"
    by (rule detectVideoPlatform_unsupported [OF a])
       (simp_all add: js_def toLowerCase_def lowerUnit_def startsWith_def)
  with a show ?thesis by simp
qed

text \<open>
  C9. The label put into the user prompt is \<open>captions/subtitles (high quality)\<close> exactly when
  the transcript is non-empty and contains neither \<open>WEBVTT\<close> nor \<open>-->\<close>; in every other case,
  the empty transcript included, it is \<open>audio transcription\<close>; and the prompt contains it.
\<close>

theorem transcriptSource_label:
  "(transcriptSource transcript = js ''captions/subtitles (high quality)'') =
     (transcript \<noteq> [] \<and> \<not> includesJs transcript (js ''WEBVTT'') \<and>
      \<not> includesJs transcript (js ''-->''))
   \<and> (transcriptSource transcript = js ''audio transcription'') =
     (transcript = [] \<or> includesJs transcript (js ''WEBVTT'') \<or>
      includesJs transcript (js ''-->''))
   \<and> includesJs (userPrompt transcript url) (transcriptSource transcript)"
proof -
  have ne: "js ''captions/subtitles (high quality)'' \<noteq> js ''audio transcription''"
    by (simp add: js_def)
  have emb: "includesJs (userPrompt transcript url) (transcriptSource transcript)"
    unfolding userPrompt_def
    by (rule includes_append_left, rule includes_append_left, rule includes_self_prefix)
  show ?thesis
    using ne emb by (auto simp: transcriptSource_def isFromCaptions_def)
qed

theorem transcriptSource_label_witness:
  "transcriptSource (js ''Mix 2 cups flour'') = js ''captions/subtitles (high quality)''
   \<and> transcriptSource (js ''WEBVTT 00:01 --> 00:02 hi'') = js ''audio transcription''
   \<and> transcriptSource [] = js ''audio transcription''"
  using transcriptSource_label [of "js ''Mix 2 cups flour''"]
        transcriptSource_label [of "js ''WEBVTT 00:01 --> 00:02 hi''"]
        transcriptSource_label [of "[]"]
  by (simp add: js_def startsWith_def)

text \<open>
  C10. The item operations of the in-memory store check the owner: when the stored item
  belongs to another user, \<open>getItemById\<close> and \<open>updateItem\<close> return null and \<open>deleteItem\<close>
  returns false, and the store is unchanged. When \<open>updateItem\<close> succeeds, the updated item
  keeps the id, the owner and the creation time of the stored item, whatever the updates
  contain, and it is what the store then holds under that id.
\<close>

theorem MemStorage_ownership:
  "(items this ident = Some item \<and> userId item \<noteq> uid \<longrightarrow>
      getItemById this ident uid = (None, this) \<and>
      updateItem this ident uid updates = (None, this) \<and>
      deleteItem this ident uid = (False, this))
   \<and> (updateItem this ident uid updates = (Some updated, this') \<longrightarrow>
      (\<exists>old. items this ident = Some old \<and> userId old = uid \<and>
         itemId updated = itemId old \<and> userId updated = userId old \<and>
         createdAt updated = createdAt old \<and>
         this' = this\<lparr>items := (items this)(ident \<mapsto> updated)\<rparr>))"
  by (auto simp: getItemById_def updateItem_def deleteItem_def Let_def
           split: option.splits if_splits)

theorem MemStorage_ownership_witness:
  "getItemById exampleStore (js ''item-1'') (js ''mallory'') = (None, exampleStore)
   \<and> updateItem exampleStore (js ''item-1'') (js ''mallory'') exampleUpdates = (None, exampleStore)
   \<and> deleteItem exampleStore (js ''item-1'') (js ''mallory'') = (False, exampleStore)
   \<and> (\<exists>updated this'.
        updateItem exampleStore (js ''item-1'') (js ''alice'') exampleUpdates = (Some updated, this')
        \<and> itemId updated = js ''item-1'' \<and> userId updated = js ''alice''
        \<and> createdAt updated = 1000 \<and> itemTitle updated = js ''New'')"
proof -
  have a: "items exampleStore (js ''item-1'') = Some exampleItem \<and>
           userId exampleItem \<noteq> js ''mallory''"
    by (simp add: exampleStore_def exampleItem_def js_def)
  obtain updated this' where
    u: "updateItem exampleStore (js ''item-1'') (js ''alice'') exampleUpdates = (Some updated, this')"
    and t: "itemTitle updated = js ''New''"
    by (simp add: updateItem_def exampleStore_def exampleItem_def exampleUpdates_def
                  spread_def js_def Let_def)
  from MemStorage_ownership
         [of exampleStore "js ''item-1''" exampleItem "js ''mallory''" exampleUpdates] a
  have 1: "getItemById exampleStore (js ''item-1'') (js ''mallory'') = (None, exampleStore) \<and>
      updateItem exampleStore (js ''item-1'') (js ''mallory'') exampleUpdates = (None, exampleStore) \<and>
      deleteItem exampleStore (js ''item-1'') (js ''mallory'') = (False, exampleStore)"
    by blast
  from MemStorage_ownership
         [of exampleStore "js ''item-1''" exampleItem "js ''alice''" exampleUpdates updated this'] u a
  have 2: "itemId updated = js ''item-1'' \<and> userId updated = js ''alice'' \<and>
           createdAt updated = 1000"
    by (auto simp: exampleItem_def)
  from 1 2 u t show ?thesis by blast
qed

lemma fixed_long: "fixed \<in> set FIXED_CATEGORIES \<Longrightarrow> 2 \<le> length fixed"
  by (auto simp: FIXED_CATEGORIES_def js_def)

text \<open>
  C7. \<open>validateCategory\<close> maps \<open>technology\<close>, \<open>TECHNOLOGY\<close> and \<open> Technology \<close> to the canonical
  \<open>Technology\<close>, and every input that is empty, or whose cleaned form (trimmed, stripped of
  the characters outside letters, digits, underscore, white space and hyphen, Title-Cased,
  capped at two tokens) has fewer than two characters, to \<open>General\<close>.
\<close>

theorem validateCategory_canonical:
  "validateCategory (js ''technology'') = js ''Technology''
   \<and> validateCategory (js ''TECHNOLOGY'') = js ''Technology''
   \<and> validateCategory (js '' Technology '') = js ''Technology''
   \<and> (category = [] \<or> length (cleanCategory category) < 2 \<longrightarrow>
        validateCategory category = js ''General'')"
proof -
  have 1: "validateCategory (js ''technology'') = js ''Technology''"
    by (simp add: validateCategory_def cleanCategory_def js_def trim_def trimStart_def trimEnd_def
        isWhitespace_def isWordChar_def capitalize_def toUpperCase_def toLowerCase_def
        upperUnit_def lowerUnit_def FIXED_CATEGORIES_def consHead_def Let_def)
  have 2: "validateCategory (js ''TECHNOLOGY'') = js ''Technology''"
    by (simp add: validateCategory_def cleanCategory_def js_def trim_def trimStart_def trimEnd_def
        isWhitespace_def isWordChar_def capitalize_def toUpperCase_def toLowerCase_def
        upperUnit_def lowerUnit_def FIXED_CATEGORIES_def consHead_def Let_def)
  have 3: "validateCategory (js '' Technology '') = js ''Technology''"
    by (simp add: validateCategory_def cleanCategory_def js_def trim_def trimStart_def trimEnd_def
        isWhitespace_def isWordChar_def capitalize_def toUpperCase_def toLowerCase_def
        upperUnit_def lowerUnit_def FIXED_CATEGORIES_def consHead_def Let_def)
  have 4: "validateCategory category = js ''General''"
    if "category = [] \<or> length (cleanCategory category) < 2"
  proof (cases "category = []")
    case True
    then show ?thesis by (simp add: validateCategory_def)
  next
    case False
    with that have short: "length (cleanCategory category) < 2" by simp
    have "find (\<lambda>fixed. toLowerCase fixed = toLowerCase (cleanCategory category)) FIXED_CATEGORIES = None"
    proof -
      have "\<not> (\<exists>fixed \<in> set FIXED_CATEGORIES. toLowerCase fixed = toLowerCase (cleanCategory category))"
      proof
        assume "\<exists>fixed \<in> set FIXED_CATEGORIES. toLowerCase fixed = toLowerCase (cleanCategory category)"
        then obtain fixed where f: "fixed \<in> set FIXED_CATEGORIES"
          and e: "toLowerCase fixed = toLowerCase (cleanCategory category)" by blast
        from e have "length fixed = length (cleanCategory category)"
          by (metis length_map toLowerCase_def)
        with fixed_long [OF f] short show False by simp
      qed
      then show ?thesis by (simp add: find_None_iff)
    qed
    with short False show ?thesis by (simp add: validateCategory_def Let_def)
  qed
  from 1 2 3 4 show ?thesis by blast
qed

theorem validateCategory_canonical_witness:
  "length (cleanCategory (js ''!a?'')) < 2 \<and> validateCategory (js ''!a?'') = js ''General''"
proof -
  have short: "length (cleanCategory (js ''!a?'')) < 2"
    by (simp add: cleanCategory_def js_def trim_def trimStart_def trimEnd_def
        isWhitespace_def isWordChar_def capitalize_def toUpperCase_def toLowerCase_def
        upperUnit_def lowerUnit_def Let_def)
  with validateCategory_canonical [of "js ''!a?''"] show ?thesis by blast
qed

subsection \<open>Title normalisation\<close>

lemma splitOn_nonempty: "splitOn d s \<noteq> []"
  by (induction s) (auto simp: consHead_def split: list.splits)

lemma joinWith_Cons: "ws \<noteq> [] \<Longrightarrow> joinWith sep (w # ws) = w @ sep @ joinWith sep ws"
  by (cases ws) simp_all

lemma joinWith_push: "joinWith sep ((x # w) # ws) = x # joinWith sep (w # ws)"
  by (cases ws) simp_all

lemma titleWord_Nil: "titleWord [] = []"
  by (simp add: titleWord_def)

lemma titleWord_Cons: "titleWord (c # w) = upperUnit c # map lowerUnit w"
  by (simp add: titleWord_def toUpperCase_def toLowerCase_def)

lemma titleCase_aux:
  "splitOn 32 cs = w # ws \<Longrightarrow>
   joinWith [32] ((if b then titleWord w else map lowerUnit w) # map titleWord ws) = caseFrom b cs"
proof (induction cs arbitrary: b w ws)
  case Nil
  then show ?case by (simp add: titleWord_Nil)
next
  case (Cons c cs)
  obtain w' ws' where sp: "splitOn 32 cs = w' # ws'"
    using splitOn_nonempty [of 32 cs] by (cases "splitOn 32 cs") auto
  show ?case
  proof (cases "c = 32")
    case True
    with Cons.prems sp have w: "w = []" and ws: "ws = w' # ws'" by auto
    have ih: "joinWith [32] (titleWord w' # map titleWord ws') = caseFrom True cs"
      using Cons.IH [OF sp, of True] by simp
    have "joinWith [32] ([] # map titleWord (w' # ws')) = 32 # caseFrom True cs"
      using ih by simp
    moreover have "(if b then titleWord [] else map lowerUnit []) = []"
      by (simp add: titleWord_def)
    moreover have "titleWord [] = []"
      by (rule titleWord_Nil)
    ultimately show ?thesis using True w ws by simp
  next
    case False
    with Cons.prems sp have w: "w = c # w'" and ws: "ws = ws'" by (auto simp: consHead_def)
    have ih: "joinWith [32] (map lowerUnit w' # map titleWord ws') = caseFrom False cs"
      using Cons.IH [OF sp, of False] by simp
    show ?thesis
      using False w ws ih
      by (simp add: titleWord_Cons joinWith_push)
  qed
qed

lemma titleCase_caseFrom: "titleCase s = caseFrom True s"
proof -
  obtain w ws where sp: "splitOn 32 s = w # ws"
    using splitOn_nonempty [of 32 s] by (cases "splitOn 32 s") auto
  show ?thesis
    using titleCase_aux [OF sp, of True] sp by (simp add: titleCase_def js_def)
qed

lemma length_caseFrom: "length (caseFrom b s) = length s"
  by (induction s arbitrary: b) auto


lemma whitespace_range: "isWhitespace c \<Longrightarrow> c \<le> 32 \<or> 160 \<le> c"
  unfolding isWhitespace_def by linarith

lemma upperUnit_cases: "upperUnit c = c \<or> (97 \<le> c \<and> c \<le> 122 \<and> 65 \<le> upperUnit c \<and> upperUnit c \<le> 90)"
  unfolding upperUnit_def by auto

lemma lowerUnit_cases: "lowerUnit c = c \<or> (65 \<le> c \<and> c \<le> 90 \<and> 97 \<le> lowerUnit c \<and> lowerUnit c \<le> 122)"
  unfolding lowerUnit_def by auto

lemma upperUnit_idem: "upperUnit (upperUnit c) = upperUnit c"
  unfolding upperUnit_def by auto

lemma lowerUnit_idem: "lowerUnit (lowerUnit c) = lowerUnit c"
  unfolding lowerUnit_def by simp

lemma upperUnit_space: "(upperUnit c = 32) = (c = 32)"
  using upperUnit_cases [of c] by auto

lemma lowerUnit_space: "(lowerUnit c = 32) = (c = 32)"
  using lowerUnit_cases [of c] by auto

lemma upperUnit_marker: "(upperUnit c = 35) = (c = 35)" "(upperUnit c = 64) = (c = 64)"
  using upperUnit_cases [of c] by auto

lemma lowerUnit_marker: "(lowerUnit c = 35) = (c = 35)" "(lowerUnit c = 64) = (c = 64)"
  using lowerUnit_cases [of c] by auto

lemma upperUnit_whitespace: "isWhitespace (upperUnit c) = isWhitespace c"
  using upperUnit_cases [of c] whitespace_range [of c] whitespace_range [of "upperUnit c"]
  by auto

lemma lowerUnit_whitespace: "isWhitespace (lowerUnit c) = isWhitespace c"
  using lowerUnit_cases [of c] whitespace_range [of c] whitespace_range [of "lowerUnit c"]
  by auto

lemmas upperUnit_facts = upperUnit_idem lowerUnit_idem upperUnit_space lowerUnit_space
  upperUnit_marker lowerUnit_marker upperUnit_whitespace lowerUnit_whitespace

lemma whitespace_32: "isWhitespace 32"
  by (simp add: isWhitespace_def)



lemma spaced_Cons_iff:
  "spaced (x # r) =
     ((isWhitespace x \<longrightarrow> x = 32 \<and> (case r of [] \<Rightarrow> True | y # _ \<Rightarrow> \<not> isWhitespace y)) \<and> spaced r)"
  by (cases r) auto

lemma caseFrom_Cons_ex:
  "\<exists>x b'. caseFrom b (c # cs) = x # caseFrom b' cs \<and> isWhitespace x = isWhitespace c \<and>
      (x = 32) = (c = 32)"
proof (cases "c = 32")
  case True
  then show ?thesis by auto
next
  case False
  show ?thesis
  proof (cases b)
    case True
    have "caseFrom b (c # cs) = upperUnit c # caseFrom False cs"
      using True False by simp
    then show ?thesis
      using upperUnit_whitespace [of c] upperUnit_space [of c] by blast
  next
    case False
    have "caseFrom b (c # cs) = lowerUnit c # caseFrom False cs"
      using False \<open>c \<noteq> 32\<close> by simp
    then show ?thesis
      using lowerUnit_whitespace [of c] lowerUnit_space [of c] by blast
  qed
qed

lemma spaced_caseFrom: "spaced s \<Longrightarrow> spaced (caseFrom b s)"
proof (induction s arbitrary: b)
  case Nil
  then show ?case by simp
next
  case (Cons c s)
  obtain x b' where e: "caseFrom b (c # s) = x # caseFrom b' s"
    and wx: "isWhitespace x = isWhitespace c" and x32: "(x = 32) = (c = 32)"
    using caseFrom_Cons_ex [of b c s] by blast
  from Cons.prems have sp: "spaced s"
    and hd: "isWhitespace c \<longrightarrow> c = 32 \<and> (case s of [] \<Rightarrow> True | y # _ \<Rightarrow> \<not> isWhitespace y)"
    by (simp_all add: spaced_Cons_iff)
  have ih: "spaced (caseFrom b' s)" using Cons.IH [OF sp] .
  have nxt: "case caseFrom b' s of [] \<Rightarrow> True | y # _ \<Rightarrow> \<not> isWhitespace y" if "isWhitespace c"
  proof (cases s)
    case Nil
    then show ?thesis by simp
  next
    case (Cons d cs)
    obtain y b'' where e2: "caseFrom b' (d # cs) = y # caseFrom b'' cs"
      and wy: "isWhitespace y = isWhitespace d"
      using caseFrom_Cons_ex [of b' d cs] by blast
    from hd that Cons have "\<not> isWhitespace d" by simp
    with e2 wy Cons show ?thesis by simp
  qed
  have "spaced (x # caseFrom b' s)"
    unfolding spaced_Cons_iff using ih nxt wx x32 hd by blast
  with e show ?case by simp
qed

lemma caseFrom_idem: "caseFrom b (caseFrom b s) = caseFrom b s"
  by (induction s arbitrary: b) (auto simp: upperUnit_facts)

lemma caseFrom_take: "caseFrom b (take n s) = take n (caseFrom b s)"
  by (induction s arbitrary: b n) (auto simp: take_Cons split: nat.splits)

lemma caseFrom_markers:
  "(\<forall>c \<in> set (caseFrom b s). c \<noteq> 35 \<and> c \<noteq> 64) = (\<forall>c \<in> set s. c \<noteq> 35 \<and> c \<noteq> 64)"
  by (induction s arbitrary: b) (auto simp: upperUnit_facts)

lemma spaced_Cons: "\<not> isWhitespace c \<Longrightarrow> spaced r \<Longrightarrow> spaced (c # r)"
  by (cases r) auto

lemma spaced_collapse: "spaced (collapseWhitespace s)"
proof (induction s rule: collapseWhitespace.induct)
  case 1
  then show ?case by simp
next
  case (2 c)
  then show ?case by (simp add: whitespace_32)
next
  case (3 c d cs)
  show ?case
  proof (cases "isWhitespace c")
    case True
    show ?thesis
    proof (cases "isWhitespace d")
      case True
      with \<open>isWhitespace c\<close> 3 show ?thesis by simp
    next
      case False
      then obtain r where "collapseWhitespace (d # cs) = d # r"
        by (cases cs) auto
      with False True 3 show ?thesis by simp
    qed
  next
    case False
    with 3 show ?thesis by (simp add: spaced_Cons)
  qed
qed

lemma collapse_spaced: "spaced s \<Longrightarrow> collapseWhitespace s = s"
  by (induction s rule: spaced.induct) auto

lemma spaced_tl: "spaced (c # s) \<Longrightarrow> spaced s"
  by (cases s) auto

lemma spaced_take: "spaced s \<Longrightarrow> spaced (take n s)"
proof (induction s arbitrary: n rule: spaced.induct)
  case 1
  then show ?case by simp
next
  case (2 c)
  then show ?case by (cases n) auto
next
  case (3 c d cs)
  show ?case
  proof (cases n)
    case 0
    then show ?thesis by simp
  next
    case (Suc m)
    show ?thesis
    proof (cases m)
      case 0
      with Suc 3 show ?thesis by auto
    next
      case (Suc k)
      with \<open>n = Suc m\<close> 3 "3.IH" [of "Suc k"] show ?thesis by auto
    qed
  qed
qed

lemma spaced_dropWhile: "spaced s \<Longrightarrow> spaced (dropWhile P s)"
  by (induction s) (auto dest: spaced_tl)

lemma trimEnd_take: "trimEnd s = take (length (trimEnd s)) s"
proof -
  have "rev (dropWhile isWhitespace (rev s)) = take (length s - length (takeWhile isWhitespace (rev s))) s"
    by (simp add: dropWhile_eq_drop rev_drop)
  then show ?thesis by (simp add: trimEnd_def)
qed

lemma spaced_head: "spaced (c # s) \<Longrightarrow> isWhitespace c \<Longrightarrow> c = 32"
  by (cases s) auto

lemma caseFrom_trimStart:
  "spaced s \<Longrightarrow> caseFrom True s = s \<Longrightarrow> caseFrom True (trimStart s) = trimStart s"
  unfolding trimStart_def
proof (induction s)
  case Nil
  then show ?case by simp
next
  case (Cons c s)
  show ?case
  proof (cases "isWhitespace c")
    case True
    with Cons.prems have c: "c = 32" by (auto dest: spaced_head)
    with Cons.prems have "caseFrom True s = s" "spaced s" by (auto dest: spaced_tl)
    with Cons.IH True show ?thesis by simp
  next
    case False
    with Cons.prems show ?thesis by simp
  qed
qed

lemma set_collapse: "c \<in> set (collapseWhitespace s) \<Longrightarrow> c \<in> set s \<or> c = 32"
  by (induction s rule: collapseWhitespace.induct) (auto split: if_splits)

lemma set_trim: "set (trim s) \<subseteq> set s"
proof -
  have "set (trimEnd (trimStart s)) \<subseteq> set (trimStart s)"
    using trimEnd_take [of "trimStart s"] set_take_subset by metis
  moreover have "set (trimStart s) \<subseteq> set s"
    unfolding trimStart_def by (auto dest: set_dropWhileD)
  ultimately show ?thesis unfolding trim_def by blast
qed

lemma length_trim: "length (trim s) \<le> length s"
proof -
  have "length (trimEnd (trimStart s)) \<le> length (trimStart s)"
    unfolding trimEnd_def using length_dropWhile_le [of isWhitespace "rev (trimStart s)"] by simp
  moreover have "length (trimStart s) \<le> length s"
    unfolding trimStart_def by (rule length_dropWhile_le)
  ultimately show ?thesis unfolding trim_def by simp
qed

lemma spaced_trim: "spaced s \<Longrightarrow> spaced (trim s)"
proof -
  assume "spaced s"
  then have "spaced (trimStart s)" unfolding trimStart_def by (rule spaced_dropWhile)
  then have "spaced (take (length (trimEnd (trimStart s))) (trimStart s))" by (rule spaced_take)
  then show ?thesis unfolding trim_def using trimEnd_take [of "trimStart s"] by simp
qed

lemma caseFrom_trim:
  assumes "spaced s" and "caseFrom True s = s"
  shows "caseFrom True (trim s) = trim s"
proof -
  have 1: "caseFrom True (trimStart s) = trimStart s"
    using assms by (rule caseFrom_trimStart)
  have "caseFrom True (take (length (trimEnd (trimStart s))) (trimStart s)) =
        take (length (trimEnd (trimStart s))) (trimStart s)"
    using 1 by (simp add: caseFrom_take)
  then show ?thesis unfolding trim_def using trimEnd_take [of "trimStart s"] by simp
qed

lemma cleanTitle_markers: "\<forall>c \<in> set (cleanTitle x). c \<noteq> 35 \<and> c \<noteq> 64"
proof
  fix c assume "c \<in> set (cleanTitle x)"
  then have "c \<in> set (collapseWhitespace (filter (\<lambda>c. c \<noteq> 35 \<and> c \<noteq> 64) (trim x)))"
    unfolding cleanTitle_def substring0_def by (rule in_set_takeD)
  then have "c \<in> set (filter (\<lambda>c. c \<noteq> 35 \<and> c \<noteq> 64) (trim x)) \<or> c = 32"
    by (rule set_collapse)
  then show "c \<noteq> 35 \<and> c \<noteq> 64" by auto
qed

lemma normalizeTitle_length: "length (normalizeTitle x) \<le> 60"
  by (simp add: normalizeTitle_def titleCase_caseFrom length_caseFrom cleanTitle_def substring0_def)

lemma normalizeTitle_spaced: "spaced (normalizeTitle x)"
  unfolding normalizeTitle_def titleCase_caseFrom cleanTitle_def substring0_def
  by (intro spaced_caseFrom spaced_take spaced_collapse)

lemma normalizeTitle_markers: "\<forall>c \<in> set (normalizeTitle x). c \<noteq> 35 \<and> c \<noteq> 64"
  unfolding normalizeTitle_def titleCase_caseFrom caseFrom_markers by (rule cleanTitle_markers)

lemma normalizeTitle_fixed: "caseFrom True (normalizeTitle x) = normalizeTitle x"
  by (simp add: normalizeTitle_def titleCase_caseFrom caseFrom_idem)

lemma normalizeTitle_again: "normalizeTitle (normalizeTitle x) = trim (normalizeTitle x)"
proof -
  let ?t = "normalizeTitle x"
  have m: "filter (\<lambda>c. c \<noteq> 35 \<and> c \<noteq> 64) (trim ?t) = trim ?t"
    using normalizeTitle_markers [of x] set_trim [of ?t] by (auto simp: filter_id_conv)
  have s: "spaced (trim ?t)"
    using normalizeTitle_spaced by (rule spaced_trim)
  have c: "collapseWhitespace (trim ?t) = trim ?t"
    using s by (rule collapse_spaced)
  have l: "length (trim ?t) \<le> 60"
    using length_trim [of ?t] normalizeTitle_length [of x] by simp
  have "cleanTitle ?t = trim ?t"
    unfolding cleanTitle_def substring0_def using m c l by simp
  moreover have "caseFrom True (trim ?t) = trim ?t"
    using normalizeTitle_spaced normalizeTitle_fixed by (rule caseFrom_trim)
  ultimately show ?thesis
    by (simp add: normalizeTitle_def [of ?t] titleCase_caseFrom)
qed

text \<open>
  C5 (as amended). For an ASCII title, the normalised title has at most 60 code units, and
  normalising it a second time yields it with the space at its start and end removed; so
  the second normalisation changes nothing exactly when the normalised title neither starts
  nor ends with a space.
\<close>

theorem normalizeTitle_renormalize:
  assumes "ascii title"
  shows "normalizeTitle (normalizeTitle title) = trim (normalizeTitle title)
         \<and> length (normalizeTitle title) \<le> 60"
  using normalizeTitle_again normalizeTitle_length by simp

lemmas title_eval = normalizeTitle_def titleCase_def cleanTitle_def substring0_def trim_def
  trimStart_def trimEnd_def isWhitespace_def titleWord_def toUpperCase_def toLowerCase_def
  upperUnit_def lowerUnit_def consHead_def js_def ascii_def

theorem normalizeTitle_renormalize_witness:
  "ascii (js ''# easy  PASTA @home'')
   \<and> normalizeTitle (js ''# easy  PASTA @home'') = js '' Easy Pasta Home''
   \<and> normalizeTitle (normalizeTitle (js ''# easy  PASTA @home'')) = js ''Easy Pasta Home''
   \<and> length (normalizeTitle (js ''# easy  PASTA @home'')) \<le> 60"
proof -
  have a: "ascii (js ''# easy  PASTA @home'')" by (simp add: ascii_def js_def)
  have n: "normalizeTitle (js ''# easy  PASTA @home'') = js '' Easy Pasta Home''"
    by (simp add: title_eval)
  have t: "trim (js '' Easy Pasta Home'') = js ''Easy Pasta Home''"
    by (simp add: title_eval)
  from normalizeTitle_renormalize [OF a] a n t show ?thesis by simp
qed

text \<open>
  C5 as stated fails: the title \<open># easy pasta\<close> is normalised to \<open> Easy Pasta\<close>, with the space
  that followed the marker, and that to \<open>Easy Pasta\<close>.
\<close>

theorem normalizeTitle_not_idempotent:
  "normalizeTitle (normalizeTitle (js ''# easy pasta'')) \<noteq> normalizeTitle (js ''# easy pasta'')"
proof -
  have n: "normalizeTitle (js ''# easy pasta'') = js '' Easy Pasta''"
    by (simp add: title_eval)
  have "normalizeTitle (js '' Easy Pasta'') = js ''Easy Pasta''"
    by (simp add: title_eval)
  with n show ?thesis by (simp add: js_def)
qed

subsection \<open>Model fallback and transcript acquisition\<close>

lemma tryModels_exhausted:
  "\<forall>m \<in> set models. \<exists>e. attempt m = Inl e \<and> isModelError e \<Longrightarrow>
   \<exists>e'. tryModels attempt models lastError called = (None, e', called @ models)"
proof (induction models arbitrary: lastError called)
  case Nil
  then show ?case by simp
next
  case (Cons m models)
  then obtain e where e: "attempt m = Inl e" "isModelError e" by auto
  from Cons.prems have "\<forall>m \<in> set models. \<exists>e. attempt m = Inl e \<and> isModelError e" by simp
  from Cons.IH [OF this, of "Some e" "called @ [m]"] e show ?case by simp
qed

lemma tryModels_abort:
  "\<forall>m \<in> set pre. \<exists>e. attempt m = Inl e \<and> isModelError e \<Longrightarrow>
   attempt model = Inl error \<Longrightarrow> \<not> isModelError error \<Longrightarrow>
   tryModels attempt (pre @ model # post) lastError called = (None, Some error, called @ pre @ [model])"
proof (induction pre arbitrary: lastError called)
  case Nil
  then show ?case by simp
next
  case (Cons m pre)
  then obtain e where e: "attempt m = Inl e" "isModelError e" by auto
  from Cons.prems have "\<forall>m \<in> set pre. \<exists>e. attempt m = Inl e \<and> isModelError e" by simp
  from Cons.IH [OF this Cons.prems(2,3), of "Some e" "called @ [m]"] e show ?case by simp
qed

lemma firstPiece_takeWhile: "firstPiece d s = takeWhile (\<lambda>c. c \<noteq> d) s"
proof -
  have "\<exists>rest. splitOn d s = takeWhile (\<lambda>c. c \<noteq> d) s # rest"
    by (induction s) (auto simp: consHead_def)
  then show ?thesis by (auto simp: firstPiece_def)
qed

lemma fallbackTitle_short:
  "length (orElse (trim (takeWhile P (take 50 s))) (js ''Video'')) \<le> 60"
proof -
  have "length (trim (takeWhile P (take 50 s))) \<le> length (takeWhile P (take 50 s))"
    by (rule length_trim)
  also have "\<dots> \<le> length (take 50 s)" by (rule length_takeWhile_le)
  also have "\<dots> \<le> 50" by simp
  finally show ?thesis by (simp add: orElse_def js_def)
qed

text \<open>
  C1 (as amended). With the API key set, when the attempt for every model of the list fails
  with a model-class error, \<open>transformVideoContent\<close> returns, after calling all three models,
  the fallback payload: type \<open>general\<close>, category \<open>General\<close>, summary the first 200 code units
  of the transcript, and title the text before the first period in the first 50 code units
  with the white space at its ends trimmed off, or \<open>Video\<close> if that trimmed text is empty.
\<close>

theorem transformVideoContent_all_models_missing:
  assumes "apiKey \<noteq> None" and "apiKey \<noteq> Some []"
      and "\<forall>m \<in> set MODELS. \<exists>e. attemptWith client structure m = Inl e \<and> isModelError e"
  shows "transformVideoContent apiKey client structure transcript url =
           (Inr \<lparr>analysisTitle =
                    orElse (trim (takeWhile (\<lambda>c. c \<noteq> 46) (take 50 transcript))) (js ''Video''),
                 analysisCategory = JStr (js ''General''),
                 analysisSummary = take 200 transcript,
                 structuredContent =
                   \<lparr>contentType = JStr (js ''general''), recipe = None, workout = None,
                    tutorial = None\<rparr>\<rparr>,
            MODELS)"
proof -
  obtain e' where
    "tryModels (attemptWith client structure) MODELS None [] = (None, e', MODELS)"
    using tryModels_exhausted [OF assms(3), of None "[]"] by auto
  then have "transformVideoContent apiKey client structure transcript url =
      (Inr (fallbackVideoAnalysis transcript), MODELS)"
    using assms(1,2) by (simp add: transformVideoContent_def)
  moreover have "fallbackVideoAnalysis transcript =
      \<lparr>analysisTitle =
          orElse (trim (takeWhile (\<lambda>c. c \<noteq> 46) (take 50 transcript))) (js ''Video''),
       analysisCategory = JStr (js ''General''),
       analysisSummary = take 200 transcript,
       structuredContent =
         \<lparr>contentType = JStr (js ''general''), recipe = None, workout = None,
          tutorial = None\<rparr>\<rparr>"
    using fallbackTitle_short [of "\<lambda>c. c \<noteq> 46" transcript]
    by (simp add: fallbackVideoAnalysis_def firstPiece_takeWhile substring0_def Let_def)
  ultimately show ?thesis by simp
qed

lemmas string_eval = js_def trim_def trimStart_def trimEnd_def isWhitespace_def
  substring0_def startsWith_def orElse_def

lemma notFound_isModelError:
  "\<forall>m \<in> set MODELS. \<exists>e. attemptWith notFoundClient structure m = Inl e \<and> isModelError e"
  by (simp add: attemptWith_def notFoundClient_def isModelError_def)

theorem transformVideoContent_all_models_missing_witness:
  "transformVideoContent (Some (js ''sk-test'')) notFoundClient unreached
       (js ''Preheat oven to 350F. Mix 2 cups flour.'') (js ''https://youtu.be/abc'') =
     (Inr \<lparr>analysisTitle = js ''Preheat oven to 350F'',
           analysisCategory = JStr (js ''General''),
           analysisSummary = js ''Preheat oven to 350F. Mix 2 cups flour.'',
           structuredContent =
             \<lparr>contentType = JStr (js ''general''), recipe = None, workout = None,
              tutorial = None\<rparr>\<rparr>,
      [js ''gpt-4o-mini'', js ''gpt-4-turbo'', js ''gpt-3.5-turbo''])"
proof -
  have k: "Some (js ''sk-test'') \<noteq> None" "Some (js ''sk-test'') \<noteq> Some []"
    by (simp_all add: js_def)
  have t: "orElse (trim (takeWhile (\<lambda>c. c \<noteq> 46)
             (take 50 (js ''Preheat oven to 350F. Mix 2 cups flour.'')))) (js ''Video'')
           = js ''Preheat oven to 350F''"
    by (simp add: string_eval)
  have s: "take 200 (js ''Preheat oven to 350F. Mix 2 cups flour.'')
           = js ''Preheat oven to 350F. Mix 2 cups flour.''"
    by (simp add: js_def)
  show ?thesis
    using transformVideoContent_all_models_missing
            [OF k notFound_isModelError, of unreached
               "js ''Preheat oven to 350F. Mix 2 cups flour.''" "js ''https://youtu.be/abc''"]
    by (simp only: t s MODELS_def)
qed

text \<open>
  C1 as stated fails on a transcript that starts with white space: the text before its
  first period keeps the leading space, the title of the fallback payload does not.
\<close>

theorem fallback_title_untrimmed_counterexample:
  "fst (transformVideoContent (Some (js ''sk-test'')) notFoundClient unreached
          (js '' Preheat the oven. Mix flour.'') (js ''https://youtu.be/abc''))
     = Inr (fallbackVideoAnalysis (js '' Preheat the oven. Mix flour.''))
   \<and> analysisTitle (fallbackVideoAnalysis (js '' Preheat the oven. Mix flour.''))
     = js ''Preheat the oven''
   \<and> specFallbackTitle (js '' Preheat the oven. Mix flour.'') = js '' Preheat the oven''
   \<and> js ''Preheat the oven'' \<noteq> js '' Preheat the oven''"
proof -
  have 1: "transformVideoContent (Some (js ''sk-test'')) notFoundClient unreached
          (js '' Preheat the oven. Mix flour.'') (js ''https://youtu.be/abc'')
     = (Inr (fallbackVideoAnalysis (js '' Preheat the oven. Mix flour.'')), MODELS)"
    by (simp add: transformVideoContent_def MODELS_def attemptWith_def notFoundClient_def
          isModelError_def js_def)
  have 2: "analysisTitle (fallbackVideoAnalysis (js '' Preheat the oven. Mix flour.''))
     = js ''Preheat the oven''"
    by (simp add: fallbackVideoAnalysis_def firstPiece_def consHead_def string_eval Let_def)
  have 3: "specFallbackTitle (js '' Preheat the oven. Mix flour.'') = js '' Preheat the oven''"
    by (simp add: specFallbackTitle_def js_def)
  have 4: "js ''Preheat the oven'' \<noteq> js '' Preheat the oven''"
    by (simp add: js_def)
  from 1 2 3 4 show ?thesis by simp
qed

text \<open>
  C2. In both fallback loops (\<open>transformVideoContent\<close> and \<open>analyzeContent\<close>), when the
  attempts for the models \<open>pre\<close> fail with model-class errors and the attempt for the next
  model fails with an error that is not model-class, the models after it are not called:
  the calls made are exactly \<open>pre\<close> and that model, and the function returns its terminal
  fallback. When this happens on the first attempt (\<open>pre\<close> empty), one call was made.
\<close>

theorem nonModelError_stops_loop:
  assumes "MODELS = pre @ model # post" and "apiKey \<noteq> None" and "apiKey \<noteq> Some []"
  shows "((\<forall>m \<in> set pre. \<exists>e. attemptWith videoClient videoStructure m = Inl e \<and> isModelError e) \<and>
          attemptWith videoClient videoStructure model = Inl error \<and> \<not> isModelError error \<longrightarrow>
            transformVideoContent apiKey videoClient videoStructure transcript url =
              (Inr (fallbackVideoAnalysis transcript), pre @ [model]))
       \<and> ((\<forall>m \<in> set pre. \<exists>e. attemptWith aiClient aiStructure m = Inl e \<and> isModelError e) \<and>
          attemptWith aiClient aiStructure model = Inl error' \<and> \<not> isModelError error' \<longrightarrow>
            analyzeContent (Some aiClient) apiKey aiStructure title content =
              (fallbackAnalysis title content, pre @ [model]))"
proof (intro conjI impI)
  assume a: "(\<forall>m \<in> set pre. \<exists>e. attemptWith videoClient videoStructure m = Inl e \<and> isModelError e) \<and>
          attemptWith videoClient videoStructure model = Inl error \<and> \<not> isModelError error"
  then have "tryModels (attemptWith videoClient videoStructure) (pre @ model # post) None []
      = (None, Some error, [] @ pre @ [model])"
    by (intro tryModels_abort) auto
  then show "transformVideoContent apiKey videoClient videoStructure transcript url =
              (Inr (fallbackVideoAnalysis transcript), pre @ [model])"
    using assms by (simp add: transformVideoContent_def)
next
  assume a: "(\<forall>m \<in> set pre. \<exists>e. attemptWith aiClient aiStructure m = Inl e \<and> isModelError e) \<and>
          attemptWith aiClient aiStructure model = Inl error' \<and> \<not> isModelError error'"
  then have "tryModels (attemptWith aiClient aiStructure) (pre @ model # post) None []
      = (None, Some error', [] @ pre @ [model])"
    by (intro tryModels_abort) auto
  then show "analyzeContent (Some aiClient) apiKey aiStructure title content =
              (fallbackAnalysis title content, pre @ [model])"
    using assms by (simp add: analyzeContent_def)
qed

theorem nonModelError_stops_loop_witness:
  "transformVideoContent (Some (js ''sk-test'')) rateLimitedClient unreached
       (js ''Preheat oven.'') (js ''https://youtu.be/abc'')
     = (Inr (fallbackVideoAnalysis (js ''Preheat oven.'')), [js ''gpt-4o-mini''])
   \<and> analyzeContent (Some rateLimitedClient) (Some (js ''sk-test'')) unreached
       (js ''A note'') None
     = (fallbackAnalysis (js ''A note'') None, [js ''gpt-4o-mini''])
   \<and> transformVideoContent (Some (js ''sk-test'')) secondRateLimitedClient unreached
       (js ''Preheat oven.'') (js ''https://youtu.be/abc'')
     = (Inr (fallbackVideoAnalysis (js ''Preheat oven.'')), [js ''gpt-4o-mini'', js ''gpt-4-turbo''])
   \<and> length [js ''gpt-4o-mini''] = 1"
proof -
  have k: "Some (js ''sk-test'') \<noteq> None" "Some (js ''sk-test'') \<noteq> Some []"
    by (simp_all add: js_def)
  have m0: "MODELS = [] @ js ''gpt-4o-mini'' # [js ''gpt-4-turbo'', js ''gpt-3.5-turbo'']"
    by (simp add: MODELS_def)
  have m1: "MODELS = [js ''gpt-4o-mini''] @ js ''gpt-4-turbo'' # [js ''gpt-3.5-turbo'']"
    by (simp add: MODELS_def)
  have r: "\<not> isModelError rateLimitError"
    by (simp add: isModelError_def rateLimitError_def js_def startsWith_def)
  have a0: "attemptWith rateLimitedClient unreached m = Inl rateLimitError" for m
    by (simp add: attemptWith_def rateLimitedClient_def)
  have a1: "\<forall>m \<in> set [js ''gpt-4o-mini''].
              \<exists>e. attemptWith secondRateLimitedClient unreached m = Inl e \<and> isModelError e"
    by (simp add: attemptWith_def secondRateLimitedClient_def notFoundClient_def isModelError_def)
  have a2: "attemptWith secondRateLimitedClient unreached (js ''gpt-4-turbo'') = Inl rateLimitError"
    by (simp add: attemptWith_def secondRateLimitedClient_def js_def)
  from nonModelError_stops_loop [OF m0 k, of rateLimitedClient unreached rateLimitError
         "js ''Preheat oven.''" "js ''https://youtu.be/abc''"
         rateLimitedClient unreached rateLimitError "js ''A note''" None] a0 r
  have 12: "transformVideoContent (Some (js ''sk-test'')) rateLimitedClient unreached
       (js ''Preheat oven.'') (js ''https://youtu.be/abc'')
     = (Inr (fallbackVideoAnalysis (js ''Preheat oven.'')), [js ''gpt-4o-mini''])
    \<and> analyzeContent (Some rateLimitedClient) (Some (js ''sk-test'')) unreached
       (js ''A note'') None
     = (fallbackAnalysis (js ''A note'') None, [js ''gpt-4o-mini''])"
    by (simp add: a0 r)
  from nonModelError_stops_loop [OF m1 k, of secondRateLimitedClient unreached rateLimitError
         "js ''Preheat oven.''" "js ''https://youtu.be/abc''"
         secondRateLimitedClient unreached rateLimitError "js ''A note''" None] a1 a2 r
  have 3: "transformVideoContent (Some (js ''sk-test'')) secondRateLimitedClient unreached
       (js ''Preheat oven.'') (js ''https://youtu.be/abc'')
     = (Inr (fallbackVideoAnalysis (js ''Preheat oven.'')), [js ''gpt-4o-mini'', js ''gpt-4-turbo''])"
    by (simp add: a1 a2 r)
  from 12 3 show ?thesis by simp
qed



subsection \<open>Recipe repair\<close>

lemma getProp_setProp: "getProp (setProp ps k v) k' = (if k' = k then Some v else getProp ps k')"
  by (induction ps) (auto simp: getProp_def)

lemma getProp_deleteProp: "getProp (deleteProp ps k) k' = (if k' = k then None else getProp ps k')"
  by (induction ps) (auto simp: getProp_def deleteProp_def)

lemma getProp_coerceTime_other: "k' \<noteq> k \<Longrightarrow> getProp (coerceTime r k) k' = getProp r k'"
  by (simp add: coerceTime_def getProp_setProp split: option.splits)

lemma getProp_coerceTime_same:
  "getProp r k = Some v \<Longrightarrow> truthy (Some v) \<Longrightarrow> \<not> isString (Some v) \<Longrightarrow>
   getProp (coerceTime r k) k = Some (JStr (toStringJs v))"
  by (simp add: coerceTime_def getProp_setProp)

lemma getProp_coerceServings_other:
  "k' \<noteq> js ''servings'' \<Longrightarrow> getProp (coerceServings r) k' = getProp r k'"
  by (simp add: coerceServings_def getProp_setProp getProp_deleteProp
           split: option.splits json.splits)

lemma getProp_coerceServings_same:
  "getProp r (js ''servings'') = Some (JStr s) \<Longrightarrow> s \<noteq> [] \<Longrightarrow>
   getProp (coerceServings r) (js ''servings'') =
     (case matchDigits s of None \<Rightarrow> None | Some d \<Rightarrow> Some (JNum (parseInt d)))"
  by (simp add: coerceServings_def getProp_setProp getProp_deleteProp split: option.splits)

lemma keys_distinct:
  "js ''ingredients'' \<noteq> js ''instructions''" "js ''ingredients'' \<noteq> js ''name''"
  "js ''ingredients'' \<noteq> js ''servings''" "js ''ingredients'' \<noteq> js ''prepTime''"
  "js ''ingredients'' \<noteq> js ''cookTime''" "js ''instructions'' \<noteq> js ''ingredients''"
  "js ''instructions'' \<noteq> js ''name''" "js ''instructions'' \<noteq> js ''servings''"
  "js ''instructions'' \<noteq> js ''prepTime''" "js ''instructions'' \<noteq> js ''cookTime''"
  "js ''name'' \<noteq> js ''ingredients''" "js ''name'' \<noteq> js ''instructions''"
  "js ''name'' \<noteq> js ''servings''" "js ''name'' \<noteq> js ''prepTime''"
  "js ''name'' \<noteq> js ''cookTime''" "js ''servings'' \<noteq> js ''ingredients''"
  "js ''servings'' \<noteq> js ''instructions''" "js ''servings'' \<noteq> js ''name''"
  "js ''servings'' \<noteq> js ''prepTime''" "js ''servings'' \<noteq> js ''cookTime''"
  "js ''prepTime'' \<noteq> js ''ingredients''" "js ''prepTime'' \<noteq> js ''instructions''"
  "js ''prepTime'' \<noteq> js ''name''" "js ''prepTime'' \<noteq> js ''servings''"
  "js ''prepTime'' \<noteq> js ''cookTime''" "js ''cookTime'' \<noteq> js ''ingredients''"
  "js ''cookTime'' \<noteq> js ''instructions''" "js ''cookTime'' \<noteq> js ''name''"
  "js ''cookTime'' \<noteq> js ''servings''" "js ''cookTime'' \<noteq> js ''prepTime''"
  by (simp_all add: js_def)

lemma nameIsBlank_blank:
  "v = None \<or> (\<exists>s. v = Some (JStr s) \<and> trim s = []) \<Longrightarrow> nameIsBlank v = Some b \<Longrightarrow> b"
  by (cases v rule: nameIsBlank.cases) (auto split: if_splits)

text \<open>
  What the repair does achieve, when it completes: ingredients and instructions that are
  not arrays have become the empty array; a name that is missing or blank has become
  \<open>Untitled Recipe\<close>; servings that are a non-empty string have become the integer value of
  the first run of digits in it (up to \<open>2^53\<close>), or are removed when it has no digit;
  \<open>prepTime\<close> and \<open>cookTime\<close> that are truthy and not strings have become strings, namely
  their \<open>String(...)\<close> when their numbers are within the bound.
\<close>

lemma repairRecipe_guarantees:
  assumes "repairRecipe recipeData = Some repaired"
  shows "(\<not> isArray (getProp recipeData (js ''ingredients'')) \<longrightarrow>
            getProp repaired (js ''ingredients'') = Some (JArr []))
       \<and> (\<not> isArray (getProp recipeData (js ''instructions'')) \<longrightarrow>
            getProp repaired (js ''instructions'') = Some (JArr []))
       \<and> (getProp recipeData (js ''name'') = None \<or>
            (\<exists>s. getProp recipeData (js ''name'') = Some (JStr s) \<and> trim s = []) \<longrightarrow>
            getProp repaired (js ''name'') = Some (JStr (js ''Untitled Recipe'')))
       \<and> (\<forall>s. getProp recipeData (js ''servings'') = Some (JStr s) \<and> s \<noteq> [] \<and>
              matchDigits s = None \<longrightarrow>
            getProp repaired (js ''servings'') = None)
       \<and> (\<forall>s d. getProp recipeData (js ''servings'') = Some (JStr s) \<and> s \<noteq> [] \<and>
              matchDigits s = Some d \<and> safeInteger (parseInt d) \<longrightarrow>
            getProp repaired (js ''servings'') = Some (JNum (parseInt d)))
       \<and> (\<forall>v. getProp recipeData (js ''prepTime'') = Some v \<and> truthy (Some v) \<and>
              \<not> isString (Some v) \<longrightarrow>
            (\<exists>text. getProp repaired (js ''prepTime'') = Some (JStr text) \<and>
               (safeJson v \<longrightarrow> text = toStringJs v)))
       \<and> (\<forall>v. getProp recipeData (js ''cookTime'') = Some v \<and> truthy (Some v) \<and>
              \<not> isString (Some v) \<longrightarrow>
            (\<exists>text. getProp repaired (js ''cookTime'') = Some (JStr text) \<and>
               (safeJson v \<longrightarrow> text = toStringJs v)))"
proof -
  define r1 where "r1 = (if \<not> isArray (getProp recipeData (js ''ingredients''))
               then setProp recipeData (js ''ingredients'') (JArr []) else recipeData)"
  define r2 where "r2 = (if \<not> isArray (getProp r1 (js ''instructions''))
               then setProp r1 (js ''instructions'') (JArr []) else r1)"
  have unf: "repairRecipe recipeData =
      (case nameIsBlank (getProp r2 (js ''name'')) of
         None \<Rightarrow> None
       | Some blank \<Rightarrow>
           Some (coerceTime (coerceTime (coerceServings
                 (if blank then setProp r2 (js ''name'') (JStr (js ''Untitled Recipe'')) else r2))
                 (js ''prepTime'')) (js ''cookTime'')))"
    unfolding repairRecipe_def r1_def r2_def Let_def by (rule refl)
  from assms obtain blank where nb: "nameIsBlank (getProp r2 (js ''name'')) = Some blank"
    and rep: "repaired = coerceTime (coerceTime (coerceServings
                 (if blank then setProp r2 (js ''name'') (JStr (js ''Untitled Recipe'')) else r2))
                 (js ''prepTime'')) (js ''cookTime'')"
    unfolding unf by (cases "nameIsBlank (getProp r2 (js ''name''))") auto
  define r3 where "r3 = (if blank then setProp r2 (js ''name'') (JStr (js ''Untitled Recipe'')) else r2)"
  note d = keys_distinct
  have other: "getProp r2 k = getProp recipeData k"
    if "k \<noteq> js ''ingredients''" "k \<noteq> js ''instructions''" for k
    using that by (simp add: r1_def r2_def getProp_setProp)
  have other3: "getProp r3 k = getProp recipeData k"
    if "k \<noteq> js ''ingredients''" "k \<noteq> js ''instructions''" "k \<noteq> js ''name''" for k
    using that other by (simp add: r3_def getProp_setProp)
  have rep': "repaired = coerceTime (coerceTime (coerceServings r3) (js ''prepTime'')) (js ''cookTime'')"
    using rep by (simp add: r3_def)
  have 1: "getProp repaired (js ''ingredients'') = Some (JArr [])"
    if "\<not> isArray (getProp recipeData (js ''ingredients''))"
    using that
    by (simp add: d rep' getProp_coerceTime_other getProp_coerceServings_other r3_def r2_def r1_def
          getProp_setProp)
  have 2: "getProp repaired (js ''instructions'') = Some (JArr [])"
    if "\<not> isArray (getProp recipeData (js ''instructions''))"
    using that
    by (simp add: d rep' getProp_coerceTime_other getProp_coerceServings_other r3_def r2_def r1_def
          getProp_setProp)
  have 3: "getProp repaired (js ''name'') = Some (JStr (js ''Untitled Recipe''))"
    if "getProp recipeData (js ''name'') = None \<or>
        (\<exists>s. getProp recipeData (js ''name'') = Some (JStr s) \<and> trim s = [])"
  proof -
    have "getProp r2 (js ''name'') = getProp recipeData (js ''name'')"
      by (intro other) (simp_all add: d)
    with that nb have blank by (auto dest: nameIsBlank_blank)
    then show ?thesis
      by (simp add: d rep' getProp_coerceTime_other getProp_coerceServings_other r3_def
            getProp_setProp)
  qed
  have 4: "getProp repaired (js ''servings'') =
              (case matchDigits s of None \<Rightarrow> None | Some d \<Rightarrow> Some (JNum (parseInt d)))"
    if "getProp recipeData (js ''servings'') = Some (JStr s)" "s \<noteq> []" for s
  proof -
    have "getProp r3 (js ''servings'') = Some (JStr s)"
      using that by (simp add: d other3)
    then show ?thesis
      using that(2)
      by (simp add: d rep' getProp_coerceTime_other getProp_coerceServings_same)
  qed
  have 5: "getProp repaired (js ''prepTime'') = Some (JStr (toStringJs v))"
    if "getProp recipeData (js ''prepTime'') = Some v" "truthy (Some v)" "\<not> isString (Some v)" for v
  proof -
    have "getProp (coerceServings r3) (js ''prepTime'') = Some v"
      using that by (simp add: d other3 getProp_coerceServings_other)
    then show ?thesis
      using that(2,3)
      by (simp add: d rep' getProp_coerceTime_other getProp_coerceTime_same)
  qed
  have 6: "getProp repaired (js ''cookTime'') = Some (JStr (toStringJs v))"
    if "getProp recipeData (js ''cookTime'') = Some v" "truthy (Some v)" "\<not> isString (Some v)" for v
  proof -
    have "getProp (coerceTime (coerceServings r3) (js ''prepTime'')) (js ''cookTime'') = Some v"
      using that by (simp add: d other3 getProp_coerceServings_other getProp_coerceTime_other)
    then show ?thesis
      using that(2,3) by (simp add: rep' getProp_coerceTime_same)
  qed
  from 1 2 3 4 5 6 show ?thesis by auto
qed

lemmas recipe_eval = repairRecipe_def coerceServings_def coerceTime_def matchDigits_def
  parseInt_def isDigit_def numberToString_def getProp_def deleteProp_def trim_def trimStart_def
  trimEnd_def isWhitespace_def js_def Let_def

lemma repairRecipe_example:
  "repairRecipe exampleRecipe =
     Some [(js ''ingredients'', JArr []),
           (js ''name'', JStr (js ''Untitled Recipe'')),
           (js ''servings'', JNum 4),
           (js ''prepTime'', JStr (js ''15'')),
           (js ''cookTime'', JStr (js ''30,minutes'')),
           (js ''instructions'', JArr [])]"
  by (simp add: exampleRecipe_def recipe_eval)

text \<open>
  C6. The claim does not hold of the code at falsy values. The model's response may hold
  servings that are the empty string and a preparation time of 0. The empty string is a
  string with no digits, and the claim has the servings removed; 0 is present and is not a
  string, and the claim has it coerced to a string. The repair tests both with \<open>&&\<close> before
  it looks at their type, skips them, and leaves the block as it is.
\<close>

theorem repairRecipe_keeps_falsy_values:
  "repairRecipe falsyRecipe = Some falsyRecipe
   \<and> getProp falsyRecipe (js ''servings'') = Some (JStr [])
   \<and> matchDigits [] = None
   \<and> getProp falsyRecipe (js ''prepTime'') = Some (JNum 0)
   \<and> \<not> isString (Some (JNum 0))"
  by (simp add: falsyRecipe_def recipe_eval)

subsection \<open>Summary normalisation\<close>

lemma removeLinks_example:
  "removeLinks (js ''see [the docs](http://x.y) and [a[b](c) or [x] (y) [](z) [q]()'')
   = js ''see the docs and a[b or [x] (y) [](z) [q]()''"
  by (simp add: removeLinks_def matchLink_def js_def)

lemma lastIndexOf_less: "lastIndexOf s c < int (length s)"
  by (induction s) (auto simp: Let_def)

lemma length_orElse: "length a \<le> n \<Longrightarrow> length b \<le> n \<Longrightarrow> length (orElse a b) \<le> n"
  by (simp add: orElse_def)

lemma lastSentenceEnd_less: "lastSentenceEnd s < int (length s)"
  unfolding lastSentenceEnd_def
  using lastIndexOf_less [of s 46] lastIndexOf_less [of s 33] lastIndexOf_less [of s 63]
  by simp

lemma limitSummary_bounded:
  assumes "length t \<le> 200 \<or> 50 < lastSentenceEnd (substring0 t 200) \<or>
           (50 < lastIndexOf (substring0 t 200) 32 \<and> lastIndexOf (substring0 t 200) 32 \<le> 197)"
  shows "length (limitSummary t) \<le> 200"
proof (cases "length t \<le> 200")
  case True
  then show ?thesis by (simp add: limitSummary_def)
next
  case long: False
  then have len: "length (substring0 t 200) = 200"
    by (simp add: substring0_def)
  show ?thesis
  proof (cases "50 < lastSentenceEnd (substring0 t 200)")
    case True
    have "nat (lastSentenceEnd (substring0 t 200) + 1) \<le> 200"
      using lastSentenceEnd_less [of "substring0 t 200"] len by simp
    with True long show ?thesis
      by (simp add: limitSummary_def Let_def substring0_def)
  next
    case False
    with assms long
    have sp: "50 < lastIndexOf (substring0 t 200) 32" "lastIndexOf (substring0 t 200) 32 \<le> 197"
      by simp_all
    then have "length (take (nat (lastIndexOf (substring0 t 200) 32)) t) \<le> 197"
      by simp
    then have "length (take (nat (lastIndexOf (substring0 t 200) 32)) t @ js ''...'') \<le> 200"
      by (simp add: js_def)
    with False sp long show ?thesis
      by (simp add: limitSummary_def Let_def substring0_def [of t "nat _"])
  qed
qed

lemma length_toLowerCase: "length (toLowerCase s) = length s"
  by (simp add: toLowerCase_def)

lemma avoidTitle_regenerated:
  assumes "repeatsTitle cleaned title" and "content = None \<or> content = Some []"
  shows "avoidTitle cleaned title content = js ''Information about '' @ title"
  using assms by (auto simp: avoidTitle_def)

lemma information_differs:
  "js ''Information about '' @ title \<noteq> [] \<and>
   toLowerCase (js ''Information about '' @ title) \<noteq> toLowerCase title"
proof -
  have "length (toLowerCase (js ''Information about '' @ title)) \<noteq> length (toLowerCase title)"
    by (simp add: length_toLowerCase js_def)
  then have "toLowerCase (js ''Information about '' @ title) \<noteq> toLowerCase title"
    by metis
  moreover have "js ''Information about '' @ title \<noteq> []" by (simp add: js_def)
  ultimately show ?thesis by simp
qed

lemma kept_differs:
  assumes "\<not> repeatsTitle cleaned title"
  shows "toLowerCase cleaned \<noteq> toLowerCase title"
proof
  assume "toLowerCase cleaned = toLowerCase title"
  then have "trim (toLowerCase cleaned) = trim (toLowerCase title)" by simp
  with assms show False by (simp add: repeatsTitle_def Let_def)
qed

text \<open>
  C4 (as amended). Let \<open>t\<close> be the summary after cleaning and after the title check. The
  output has at most 200 code units when the summary is empty; and, for an ASCII title and
  a summary that is ASCII once cleaned, when \<open>t\<close> has at most 200, when the first 200 code
  units of \<open>t\<close> hold a sentence terminator at an index above 50, or when their last space is
  at an index from 51 to 197. For such a title and summary, the output differs from the
  title case-insensitively when the summary is not empty, \<open>t\<close> has at most 200 code units
  (nothing is cut), the title check does not fire or there is no content (null or empty),
  and the cleaned summary is not empty or the title is not the filler
  \<open>No summary available.\<close>
\<close>

theorem validateSummary_bounds:
  "(summary = [] \<longrightarrow> length (validateSummary summary title content) \<le> 200)
   \<and> (ascii (cleanSummary summary) \<and> ascii title \<and>
      (length (avoidTitle (cleanSummary summary) title content) \<le> 200 \<or>
       50 < lastSentenceEnd (substring0 (avoidTitle (cleanSummary summary) title content) 200) \<or>
       (50 < lastIndexOf (substring0 (avoidTitle (cleanSummary summary) title content) 200) 32 \<and>
        lastIndexOf (substring0 (avoidTitle (cleanSummary summary) title content) 200) 32 \<le> 197))
      \<longrightarrow> length (validateSummary summary title content) \<le> 200)
   \<and> (ascii (cleanSummary summary) \<and> ascii title \<and> summary \<noteq> [] \<and>
      length (avoidTitle (cleanSummary summary) title content) \<le> 200 \<and>
      (\<not> repeatsTitle (cleanSummary summary) title \<or> content = None \<or> content = Some []) \<and>
      (cleanSummary summary \<noteq> [] \<or>
       toLowerCase title \<noteq> toLowerCase (js ''No summary available.''))
      \<longrightarrow> toLowerCase (validateSummary summary title content) \<noteq> toLowerCase title)"
proof (intro conjI impI)
  have "length (trim (substring0 s 160)) \<le> 200" for s
    using length_trim [of "substring0 s 160"] by (simp add: substring0_def)
  moreover have "length (js ''No summary available.'') \<le> 200" by (simp add: js_def)
  moreover assume "summary = []"
  ultimately show "length (validateSummary summary title content) \<le> 200"
    by (simp add: validateSummary_def Let_def length_orElse)
next
  let ?t = "avoidTitle (cleanSummary summary) title content"
  assume a: "ascii (cleanSummary summary) \<and> ascii title \<and>
      (length ?t \<le> 200 \<or> 50 < lastSentenceEnd (substring0 ?t 200) \<or>
       (50 < lastIndexOf (substring0 ?t 200) 32 \<and> lastIndexOf (substring0 ?t 200) 32 \<le> 197))"
  have d: "length (js ''No summary available.'') \<le> 200" by (simp add: js_def)
  show "length (validateSummary summary title content) \<le> 200"
  proof (cases "summary = []")
    case True
    have "length (trim (substring0 s 160)) \<le> 200" for s
      using length_trim [of "substring0 s 160"] by (simp add: substring0_def)
    with True d show ?thesis
      by (simp add: validateSummary_def Let_def length_orElse)
  next
    case False
    from a have "length (limitSummary ?t) \<le> 200"
      by (intro limitSummary_bounded) simp
    with False d show ?thesis
      by (simp add: validateSummary_def length_orElse)
  qed
next
  let ?c = "cleanSummary summary"
  let ?t = "avoidTitle ?c title content"
  assume a: "ascii (cleanSummary summary) \<and> ascii title \<and> summary \<noteq> [] \<and> length ?t \<le> 200 \<and>
      (\<not> repeatsTitle ?c title \<or> content = None \<or> content = Some []) \<and>
      (?c \<noteq> [] \<or> toLowerCase title \<noteq> toLowerCase (js ''No summary available.''))"
  then have "limitSummary ?t = ?t" by (simp add: limitSummary_def)
  with a have out: "validateSummary summary title content = orElse ?t (js ''No summary available.'')"
    by (simp add: validateSummary_def)
  show "toLowerCase (validateSummary summary title content) \<noteq> toLowerCase title"
  proof (cases "repeatsTitle ?c title")
    case True
    with a have r: "?t = js ''Information about '' @ title"
      by (intro avoidTitle_regenerated) auto
    from information_differs [of title] r
    have "?t \<noteq> []" and "toLowerCase ?t \<noteq> toLowerCase title" by simp_all
    with out show ?thesis by (simp add: orElse_def)
  next
    case False
    then have t: "?t = ?c" by (simp add: avoidTitle_def)
    show ?thesis
    proof (cases "?c = []")
      case True
      with a out t show ?thesis by (auto simp: orElse_def)
    next
      case nonempty: False
      with out t kept_differs [OF False] show ?thesis by (simp add: orElse_def)
    qed
  qed
qed

lemmas summary_eval = validateSummary_def cleanSummary_def avoidTitle_def repeatsTitle_def
  limitSummary_def removeLinks_def matchLink_def orElse_def substring0_def trim_def
  trimStart_def trimEnd_def isWhitespace_def isHighSurrogate_def isLowSurrogate_def
  codePoint_def toLowerCase_def lowerUnit_def startsWith_def js_def Let_def

theorem validateSummary_bounds_witness:
  "validateSummary (js ''**Quick Pasta** is great '' @ [55356, 57173]) (js ''quick pasta'') None
     = js ''Information about quick pasta''
   \<and> length (validateSummary (js ''**Quick Pasta** is great '' @ [55356, 57173])
               (js ''quick pasta'') None) \<le> 200
   \<and> toLowerCase (validateSummary (js ''**Quick Pasta** is great '' @ [55356, 57173])
                    (js ''quick pasta'') None)
       \<noteq> toLowerCase (js ''quick pasta'')
   \<and> validateSummary (js ''A quick dinner idea'') (js ''Quick Pasta'') (Some (js ''Quick Pasta''))
     = js ''A quick dinner idea''
   \<and> toLowerCase (validateSummary (js ''A quick dinner idea'') (js ''Quick Pasta'')
                     (Some (js ''Quick Pasta'')))
       \<noteq> toLowerCase (js ''Quick Pasta'')"
proof -
  let ?s = "js ''**Quick Pasta** is great '' @ [55356, 57173]"
  have c: "cleanSummary ?s = js ''Quick Pasta is great ''"
    by (simp add: summary_eval)
  have t: "avoidTitle (js ''Quick Pasta is great '') (js ''quick pasta'') None
           = js ''Information about quick pasta''"
    by (simp add: summary_eval)
  have v: "validateSummary ?s (js ''quick pasta'') None = js ''Information about quick pasta''"
    by (simp add: summary_eval)
  have h: "?s \<noteq> []" "js ''Quick Pasta is great '' \<noteq> []"
      "length (js ''Information about quick pasta'') \<le> 200"
      "ascii (js ''quick pasta'')" "ascii (js ''Quick Pasta is great '')"
    by (simp_all add: js_def ascii_def)
  from validateSummary_bounds [of ?s "js ''quick pasta''" None] c t h
  have 1: "length (validateSummary ?s (js ''quick pasta'') None) \<le> 200
   \<and> toLowerCase (validateSummary ?s (js ''quick pasta'') None)
       \<noteq> toLowerCase (js ''quick pasta'')"
    by simp
  have c2: "cleanSummary (js ''A quick dinner idea'') = js ''A quick dinner idea''"
    by (simp add: summary_eval)
  have r2: "\<not> repeatsTitle (js ''A quick dinner idea'') (js ''Quick Pasta'')"
    by (simp add: summary_eval)
  have t2: "avoidTitle (js ''A quick dinner idea'') (js ''Quick Pasta'') (Some (js ''Quick Pasta''))
           = js ''A quick dinner idea''"
    using r2 by (simp add: avoidTitle_def)
  have v2: "validateSummary (js ''A quick dinner idea'') (js ''Quick Pasta'') (Some (js ''Quick Pasta''))
     = js ''A quick dinner idea''"
    by (simp add: summary_eval)
  have h2: "js ''A quick dinner idea'' \<noteq> []" "length (js ''A quick dinner idea'') \<le> 200"
      "ascii (js ''Quick Pasta'')" "ascii (js ''A quick dinner idea'')"
    by (simp_all add: js_def ascii_def)
  from validateSummary_bounds [of "js ''A quick dinner idea''" "js ''Quick Pasta''"
         "Some (js ''Quick Pasta'')"] c2 r2 t2 h2
  have 2: "toLowerCase (validateSummary (js ''A quick dinner idea'') (js ''Quick Pasta'')
                     (Some (js ''Quick Pasta'')))
       \<noteq> toLowerCase (js ''Quick Pasta'')"
    by simp
  from 1 2 v v2 show ?thesis by simp
qed

text \<open>
  C4 as stated fails: with an empty summary and no content, the output is the title.
\<close>

theorem validateSummary_repeats_title:
  "validateSummary [] (js ''Quick Pasta'') None = js ''Quick Pasta''
   \<and> toLowerCase (validateSummary [] (js ''Quick Pasta'') None) = toLowerCase (js ''Quick Pasta'')"
  by (simp add: summary_eval)

text \<open>
  Two more facts about the cap. First, the other half of C4 fails too: a text of more than
  200 code units without a sentence terminator and without a space below index 198 is cut
  and \<open>...\<close> is appended, which gives up to 203 code units; for 201 letters \<open>a\<close> the output
  has 203. Second, where the cap cuts, the output can be the title: that is why the
  statement above about the title asks for a text of at most 200 code units. Both are
  computed on text made of lower-case letters and periods, which cleaning leaves as it is.
\<close>

lemma dropWhile_none: "\<forall>c \<in> set s. \<not> P c \<Longrightarrow> dropWhile P s = s"
  by (cases s) simp_all

lemma trim_plain: "\<forall>c \<in> set s. \<not> isWhitespace c \<Longrightarrow> trim s = s"
  by (simp add: trim_def trimStart_def trimEnd_def dropWhile_none)

lemma removeCodePoints_plain:
  "\<forall>c \<in> set s. c < lo \<and> c < 55296 \<Longrightarrow> removeCodePoints lo hi s = s"
  by (induction lo hi s rule: removeCodePoints.induct) (auto simp: isHighSurrogate_def)

lemma removePairs_plain: "c \<notin> set s \<Longrightarrow> removePairs c s = s"
  by (induction c s rule: removePairs.induct) auto

lemma removeLinksWithin_plain: "91 \<notin> set s \<Longrightarrow> removeLinksWithin n s = s"
proof (induction n arbitrary: s)
  case 0
  then show ?case by simp
next
  case (Suc n)
  then show ?case by (cases s) auto
qed

lemma plain_not_whitespace: "plain s \<Longrightarrow> \<forall>c \<in> set s. \<not> isWhitespace c"
  using whitespace_range by (fastforce simp: plain_def)

lemma cleanSummary_plain:
  assumes "plain s"
  shows "cleanSummary s = s"
proof -
  have t: "trim s = s"
    using assms by (intro trim_plain plain_not_whitespace)
  have low: "\<forall>c \<in> set s. c < 9728 \<and> c < 55296"
    using assms by (auto simp: plain_def)
  have r: "removeCodePoints 127744 129535 s = s" "removeCodePoints 128512 128591 s = s"
    "removeCodePoints 128640 128767 s = s" "removeCodePoints 9728 9983 s = s"
    "removeCodePoints 9984 10175 s = s"
    using low by (auto intro!: removeCodePoints_plain)
  have p: "removePairs 42 s = s" "removePairs 95 s = s"
    using assms by (auto intro!: removePairs_plain simp: plain_def)
  have f: "filter (\<lambda>c. c \<noteq> 42) s = s" "filter (\<lambda>c. c \<noteq> 95) s = s"
    "filter (\<lambda>c. c \<noteq> 96) s = s"
    using assms by (auto simp: plain_def filter_id_conv)
  have l: "removeLinks s = s"
    unfolding removeLinks_def using assms by (intro removeLinksWithin_plain) (auto simp: plain_def)
  show ?thesis
    by (simp only: cleanSummary_def Let_def t r p f l)
qed

lemma toLowerCase_plain: "plain s \<Longrightarrow> toLowerCase s = s"
  unfolding toLowerCase_def
  by (intro map_idI) (auto simp: plain_def lowerUnit_def)

lemma lastIndexOf_lower: "\<not> 0 \<le> lastIndexOf s c \<Longrightarrow> lastIndexOf s c = - 1"
  by (induction s) (auto simp: Let_def split: if_splits)

lemma lastIndexOf_append:
  "lastIndexOf (xs @ ys) c =
     (if lastIndexOf ys c \<ge> 0 then int (length xs) + lastIndexOf ys c else lastIndexOf xs c)"
  by (induction xs) (auto simp: Let_def lastIndexOf_lower)

lemma lastIndexOf_replicate: "x \<noteq> c \<Longrightarrow> lastIndexOf (replicate n x) c = - 1"
  by (induction n) (simp_all add: Let_def)

lemma validateSummary_ellipsis_overrun:
  "ascii (cleanSummary (replicate 201 97)) \<and> ascii (js ''T'')
   \<and> length (validateSummary (replicate 201 97) (js ''T'') None) = 203"
proof -
  let ?s = "replicate 201 (97::nat)"
  have p: "plain ?s" by (simp add: plain_def)
  have a: "ascii ?s" "ascii (js ''T'')" by (simp_all add: ascii_def js_def list_all_iff)
  have tl: "trim (toLowerCase (js ''T'')) = [116]"
    by (simp add: trim_def trimStart_def trimEnd_def toLowerCase_def lowerUnit_def js_def
          isWhitespace_def)
  have sl: "trim (toLowerCase ?s) = ?s"
    using p by (simp add: toLowerCase_plain trim_plain plain_not_whitespace)
  have "length ?s \<noteq> length [116::nat]" by simp
  then have 1: "?s \<noteq> [116]" by metis
  have 2: "\<not> startsWith ?s ([116] @ js '' '')"
    by (simp add: startsWith_def js_def)
  have r: "\<not> repeatsTitle ?s (js ''T'')"
    unfolding repeatsTitle_def Let_def tl sl using 1 2 by blast
  have l: "limitSummary ?s = replicate 200 97 @ js ''...''"
    by (simp add: limitSummary_def substring0_def lastSentenceEnd_def lastIndexOf_replicate Let_def)
  have "validateSummary ?s (js ''T'') None = replicate 200 97 @ js ''...''"
    using r l by (simp add: validateSummary_def cleanSummary_plain [OF p] avoidTitle_def orElse_def)
  with a show ?thesis by (simp add: js_def cleanSummary_plain [OF p])
qed

lemma validateSummary_cut_to_title:
  "ascii (cleanSummary sentenceSummary) \<and> ascii sentenceTitle \<and> sentenceSummary \<noteq> []
   \<and> (\<not> repeatsTitle (cleanSummary sentenceSummary) sentenceTitle)
   \<and> toLowerCase (validateSummary sentenceSummary sentenceTitle None) = toLowerCase sentenceTitle"
proof -
  define low :: jsstring where "low = replicate 60 97 @ [46]"
  have p: "plain sentenceSummary" "plain low"
    by (auto simp: plain_def sentenceSummary_def low_def)
  have a: "ascii sentenceSummary" "ascii sentenceTitle"
    by (auto simp: ascii_def list_all_iff sentenceSummary_def sentenceTitle_def)
  have ne: "sentenceSummary \<noteq> []" by (simp add: sentenceSummary_def)
  have c: "cleanSummary sentenceSummary = sentenceSummary"
    using p(1) by (rule cleanSummary_plain)
  have tlow: "toLowerCase sentenceTitle = low"
    by (simp add: toLowerCase_def lowerUnit_def sentenceTitle_def low_def)
  have tl: "trim (toLowerCase sentenceTitle) = low"
    using p(2) by (simp add: tlow trim_plain plain_not_whitespace)
  have sl: "trim (toLowerCase sentenceSummary) = sentenceSummary"
    using p(1) by (simp add: toLowerCase_plain trim_plain plain_not_whitespace)
  have "length sentenceSummary \<noteq> length low"
    by (simp add: sentenceSummary_def low_def)
  then have 1: "sentenceSummary \<noteq> low" by metis
  have "take (length (low @ js '' '')) sentenceSummary = replicate 60 97 @ [46, 98]"
    by (simp add: sentenceSummary_def low_def js_def take_Cons')
  moreover have "low @ js '' '' = replicate 60 97 @ [46, 32]"
    by (simp add: low_def js_def)
  ultimately have 2: "\<not> startsWith sentenceSummary (low @ js '' '')"
    by (simp add: startsWith_def)
  have r: "\<not> repeatsTitle sentenceSummary sentenceTitle"
    unfolding repeatsTitle_def Let_def tl sl using 1 2 by blast
  have len: "length sentenceSummary > 200" by (simp add: sentenceSummary_def)
  have tr: "substring0 sentenceSummary 200 = replicate 60 97 @ [46] @ replicate 139 98"
    by (simp add: substring0_def sentenceSummary_def take_Cons')
  have lse: "lastSentenceEnd (replicate 60 97 @ [46] @ replicate 139 98) = 60"
    by (simp add: lastSentenceEnd_def lastIndexOf_append lastIndexOf_replicate Let_def)
  have cut: "substring0 sentenceSummary (nat (60 + 1)) = low"
    by (simp add: substring0_def sentenceSummary_def low_def)
  have l: "limitSummary sentenceSummary = low"
    unfolding limitSummary_def Let_def tr lse using len cut by simp
  have lne: "low \<noteq> []" by (simp add: low_def)
  have "validateSummary sentenceSummary sentenceTitle None = low"
    using r ne lne by (simp add: validateSummary_def c avoidTitle_def l orElse_def)
  moreover have "toLowerCase low = low"
    using p(2) by (rule toLowerCase_plain)
  ultimately show ?thesis using a ne r c tlow by simp
qed

end
